theory Spec2Isabelle
  imports Complex_Main "HOL-Library.Word"
begin

section \<open>The metric model\<close>

text \<open>
  A sample value is a Go \<open>float64\<close>. The collectors build their values with the
  conversion \<open>float64(n)\<close> of an integer and the division of two \<open>float64\<close>
  values; \<open>time.Duration.Seconds()\<close> also adds two. A value is kept as the
  expression that computes it, and \<open>float64_val\<close> below gives the IEEE 754 binary64
  number the expression evaluates to. The untyped constant \<open>1e9\<close> is the integer
  \<open>1000000000\<close>, which \<open>float64\<close> holds exactly: it is written
  \<open>Float64_of_int 1000000000\<close>.
\<close>

datatype float64 =
    Float64_of_int int
  | Float64_div float64 float64
  | Float64_add float64 float64

text \<open>
  \<open>time.Duration.Seconds()\<close> of the standard library, on a duration of \<open>d\<close>
  nanoseconds: \<open>sec := d / Second; nsec := d % Second;
  return float64(sec) + float64(nsec)/1e9\<close>. Go's integer division truncates
  towards zero.
\<close>

definition Duration_Seconds :: "int \<Rightarrow> float64" where
  "Duration_Seconds d =
     (let sec = sgn d * (\<bar>d\<bar> div 1000000000);
          nsec = d - sec * 1000000000
      in Float64_add (Float64_of_int sec)
           (Float64_div (Float64_of_int nsec) (Float64_of_int 1000000000)))"

subsection \<open>The binary64 value of a \<open>float64\<close> expression\<close>

text \<open>
  A binary64 number is a real number \<open>Num r\<close> (with \<open>Num 0\<close> for \<open>+0\<close>), the
  negative zero, an infinity or a NaN. An exact real result is rounded to the
  nearest number with a 53-bit significand, ties to even: its unit in the last
  place is \<open>2 ^ (e - 52)\<close> for \<open>2 ^ e \<le> \<bar>x\<bar> < 2 ^ (e + 1)\<close>, and at least
  \<open>2 ^ -1074\<close> (the subnormal numbers); a result that rounds to \<open>2 ^ 1024\<close> or
  more in magnitude is an infinity.
\<close>

datatype binary64 = Num real | NegZero | PInf | NInf | NaN

definition round_half_even :: "real \<Rightarrow> int" where
  "round_half_even x =
     (let f = \<lfloor>x\<rfloor>; d = x - of_int f
      in if d < 1 / 2 then f else if 1 / 2 < d then f + 1
         else if even f then f else f + 1)"

definition ulp_exponent :: "real \<Rightarrow> int" where
  "ulp_exponent x = max (\<lfloor>log 2 \<bar>x\<bar>\<rfloor> - 52) (- 1074)"

definition round_binary64 :: "real \<Rightarrow> real" where
  "round_binary64 x =
     (if x = 0 then 0
      else of_int (round_half_even (x / 2 powi ulp_exponent x)) * 2 powi ulp_exponent x)"

definition to_binary64 :: "real \<Rightarrow> binary64" where
  "to_binary64 x =
     (let r = round_binary64 x
      in if 2 ^ 1024 \<le> \<bar>r\<bar> then (if x < 0 then NInf else PInf)
         else if r = 0 \<and> x < 0 then NegZero
         else Num r)"

fun negative :: "binary64 \<Rightarrow> bool" where
  "negative (Num r) = (r < 0)"
| "negative NegZero = True"
| "negative PInf = False"
| "negative NInf = True"
| "negative NaN = False"

fun magnitude :: "binary64 \<Rightarrow> real" where
  "magnitude (Num r) = r"
| "magnitude NegZero = 0"
| "magnitude PInf = 0"
| "magnitude NInf = 0"
| "magnitude NaN = 0"

definition is_zero :: "binary64 \<Rightarrow> bool" where
  "is_zero a = (a = Num 0 \<or> a = NegZero)"

definition is_inf :: "binary64 \<Rightarrow> bool" where
  "is_inf a = (a = PInf \<or> a = NInf)"

definition zero :: "bool \<Rightarrow> binary64" where
  "zero neg = (if neg then NegZero else Num 0)"

definition infinity :: "bool \<Rightarrow> binary64" where
  "infinity neg = (if neg then NInf else PInf)"

definition binary64_of_int :: "int \<Rightarrow> binary64" where
  "binary64_of_int n = to_binary64 (of_int n)"

definition binary64_div :: "binary64 \<Rightarrow> binary64 \<Rightarrow> binary64" where
  "binary64_div a b =
     (if a = NaN \<or> b = NaN then NaN
      else if is_inf a then (if is_inf b then NaN else infinity (negative a \<noteq> negative b))
      else if is_inf b then zero (negative a \<noteq> negative b)
      else if is_zero b then (if is_zero a then NaN else infinity (negative a \<noteq> negative b))
      else if is_zero a then zero (negative a \<noteq> negative b)
      else to_binary64 (magnitude a / magnitude b))"

definition binary64_add :: "binary64 \<Rightarrow> binary64 \<Rightarrow> binary64" where
  "binary64_add a b =
     (if a = NaN \<or> b = NaN then NaN
      else if is_inf a then (if is_inf b \<and> a \<noteq> b then NaN else a)
      else if is_inf b then b
      else if is_zero a \<and> is_zero b then (if a = NegZero \<and> b = NegZero then NegZero else Num 0)
      else to_binary64 (magnitude a + magnitude b))"

fun float64_val :: "float64 \<Rightarrow> binary64" where
  "float64_val (Float64_of_int n) = binary64_of_int n"
| "float64_val (Float64_div a b) = binary64_div (float64_val a) (float64_val b)"
| "float64_val (Float64_add a b) = binary64_add (float64_val a) (float64_val b)"

text \<open>\<open>prometheus.ValueType\<close>.\<close>

datatype ValueType = CounterValue | GaugeValue | UntypedValue

text \<open>A Go \<open>error\<close>: a message, or \<open>fmt.Errorf\<close> with \<open>%w\<close> around another error.\<close>

datatype error = Error string | Errorf string error

text \<open>
  \<open>prometheus.Desc\<close>: the static description of a metric. Its field \<open>help\<close> is
  \<open>helpString\<close> here.
\<close>

record Desc =
  fqName :: string
  helpString :: string
  constLabelPairs :: "(string \<times> string) list"
  variableLabels :: "string list"

text \<open>
  \<open>typedDesc\<close>, the package's pair of a descriptor and its value kind. Its
  declaration is not among the source files; the two fields are those the
  collectors write (\<open>desc\<close>, \<open>valueType\<close>).
\<close>

record typedDesc =
  desc :: Desc
  valueType :: ValueType

text \<open>A constant metric, as \<open>prometheus.MustNewConstMetric\<close> returns it: one sample.\<close>

record Metric =
  metric_desc :: Desc
  metric_valueType :: ValueType
  metric_value :: float64
  metric_labelValues :: "string list"

text \<open>
  The package-level names the collectors use whose declarations are not among the
  source files: \<open>namespace\<close>, \<open>constLabels\<close>, \<open>diskSubsystem\<close> and
  \<open>diskLabelNames\<close>. They are parameters of the model.
\<close>

record package =
  namespace :: string
  constLabels :: "(string \<times> string) list"
  diskSubsystem :: string
  diskLabelNames :: "string list"

text \<open>\<open>strings.Join\<close>.\<close>

fun strings_Join :: "string list \<Rightarrow> string \<Rightarrow> string" where
  "strings_Join [] sep = []"
| "strings_Join [x] sep = x"
| "strings_Join (x # y # ys) sep = x @ sep @ strings_Join (y # ys) sep"

text \<open>\<open>prometheus.BuildFQName\<close>: the non-empty parts joined by an underscore.\<close>

definition BuildFQName :: "string \<Rightarrow> string \<Rightarrow> string \<Rightarrow> string" where
  "BuildFQName ns subsystem name =
     (if name = [] then []
      else if ns \<noteq> [] \<and> subsystem \<noteq> [] then strings_Join [ns, subsystem, name] ''_''
      else if ns \<noteq> [] then strings_Join [ns, name] ''_''
      else if subsystem \<noteq> [] then strings_Join [subsystem, name] ''_''
      else name)"

text \<open>
  Modelled from the spec: the descriptor helper, that is the package's method
  \<open>typedDesc.mustNewConstMetric\<close> and the functions \<open>NewDesc\<close> and
  \<open>MustNewConstMetric\<close> of the metrics library it rests on, none of which is among
  the source files. Section 4.1 of the specification:
  \<open>describe(name, help, labelNames, kind)\<close> builds a descriptor;
  \<open>observe(descriptor, value, labelValues...)\<close> builds a sample and fails (a panic,
  not an error value) if the number of supplied label values does not match the
  descriptor's label-name count; no other validation is performed.
\<close>

definition NewDesc :: "string \<Rightarrow> string \<Rightarrow> string list \<Rightarrow> (string \<times> string) list \<Rightarrow> Desc" where
  "NewDesc name hlp labelNames cl =
     \<lparr>fqName = name, helpString = hlp, constLabelPairs = cl, variableLabels = labelNames\<rparr>"

type_synonym panic = string

definition MustNewConstMetric ::
  "Desc \<Rightarrow> ValueType \<Rightarrow> float64 \<Rightarrow> string list \<Rightarrow> panic + Metric" where
  "MustNewConstMetric d t v labelValues =
     (if length labelValues \<noteq> length (variableLabels d)
      then Inl ''inconsistent label cardinality''
      else Inr \<lparr>metric_desc = d, metric_valueType = t, metric_value = v,
                metric_labelValues = labelValues\<rparr>)"

definition mustNewConstMetric ::
  "'a typedDesc_scheme \<Rightarrow> float64 \<Rightarrow> string list \<Rightarrow> panic + Metric" where
  "mustNewConstMetric d v labels = MustNewConstMetric (desc d) (valueType d) v labels"

text \<open>
  The channel \<open>ch\<close> is the list of the metrics sent on it so far. A statement
  \<open>ch <- d.mustNewConstMetric(...)\<close> evaluates the metric first: if that panics, nothing
  is sent and the function is left. \<open>send_all rs ch\<close> runs a straight-line sequence
  of such statements: it returns the channel, and the panic that cut the sequence
  short if there was one.
\<close>

fun send_all :: "(panic + Metric) list \<Rightarrow> Metric list \<Rightarrow> Metric list \<times> panic option" where
  "send_all [] ch = (ch, None)"
| "send_all (Inl p # rs) ch = (ch, Some p)"
| "send_all (Inr m # rs) ch = send_all rs (ch @ [m])"

text \<open>How a call of \<open>Update\<close> ends: it returns its \<open>error\<close> (\<open>None\<close> is \<open>nil\<close>), or panics.\<close>

datatype result = Returned "error option" | Panicked panic

section \<open>The queueing-discipline collector (\<open>src/unnamed/part_000\<close>)\<close>

text \<open>
  \<open>qdisc.QdiscInfo\<close> of the package \<open>github.com/ema/qdisc\<close>: the fields the
  collector reads, with the widths that package declares.
\<close>

record QdiscInfo =
  IfaceName :: string
  Parent :: "32 word"
  Kind :: string
  Bytes :: "64 word"
  Packets :: "32 word"
  Drops :: "32 word"
  Requeues :: "32 word"
  Overlimits :: "32 word"
  Qlen :: "32 word"
  Backlog :: "32 word"

record qdiscStatCollector =
  bytes :: typedDesc
  packets :: typedDesc
  drops :: typedDesc
  requeues :: typedDesc
  overlimits :: typedDesc
  qlength :: typedDesc
  backlog :: typedDesc

text \<open>
  \<open>NewQdiscStatCollector\<close>. Its error result is always \<open>nil\<close>; the logger it stores
  is not read by \<open>Update\<close>.
\<close>

definition NewQdiscStatCollector :: "package \<Rightarrow> qdiscStatCollector" where
  "NewQdiscStatCollector pkg =
     \<lparr>bytes = \<lparr>desc = NewDesc (BuildFQName (namespace pkg) ''qdisc'' ''bytes_total'')
                  ''Number of bytes sent.''
                  [''device'', ''kind''] (constLabels pkg),
               valueType = CounterValue\<rparr>,
      packets = \<lparr>desc = NewDesc (BuildFQName (namespace pkg) ''qdisc'' ''packets_total'')
                  ''Number of packets sent.''
                  [''device'', ''kind''] (constLabels pkg),
               valueType = CounterValue\<rparr>,
      drops = \<lparr>desc = NewDesc (BuildFQName (namespace pkg) ''qdisc'' ''drops_total'')
                  ''Number of packets dropped.''
                  [''device'', ''kind''] (constLabels pkg),
               valueType = CounterValue\<rparr>,
      requeues = \<lparr>desc = NewDesc (BuildFQName (namespace pkg) ''qdisc'' ''requeues_total'')
                  ''Number of packets dequeued, not transmitted, and requeued.''
                  [''device'', ''kind''] (constLabels pkg),
               valueType = CounterValue\<rparr>,
      overlimits = \<lparr>desc = NewDesc (BuildFQName (namespace pkg) ''qdisc'' ''overlimits_total'')
                  ''Number of overlimit packets.''
                  [''device'', ''kind''] (constLabels pkg),
               valueType = CounterValue\<rparr>,
      qlength = \<lparr>desc = NewDesc (BuildFQName (namespace pkg) ''qdisc'' ''current_queue_length'')
                  ''Number of packets currently in queue to be sent.''
                  [''device'', ''kind''] (constLabels pkg),
               valueType = GaugeValue\<rparr>,
      backlog = \<lparr>desc = NewDesc (BuildFQName (namespace pkg) ''qdisc'' ''backlog'')
                  ''Number of bytes currently in queue to be sent.''
                  [''device'', ''kind''] (constLabels pkg),
               valueType = GaugeValue\<rparr>\<rparr>"

text \<open>
  What \<open>Update\<close> reads from outside the program: the value of the flag
  \<open>--collector.qdisc.fixtures\<close>, what the live call \<open>qdisc.Get()\<close> returns now, and
  the file system as \<open>ioutil.ReadFile\<close> sees it. A Go call returning
  \<open>(value, error)\<close> is a pair whose second component is \<open>None\<close> for \<open>nil\<close>.
\<close>

record qdisc_world =
  collectorQdisc :: string
  qdisc_Get :: "QdiscInfo list \<times> error option"
  ioutil_ReadFile :: "string \<Rightarrow> string \<times> error option"

text \<open>
  The two library functions \<open>testQdiscGet\<close> calls, as parameters:
  \<open>filepath.Join\<close> of two path elements, and \<open>json.Unmarshal\<close> of a byte string
  into a \<open>nil\<close> slice of \<open>QdiscInfo\<close>, giving the slice after the call (which may
  hold entries even when decoding fails) and the error.
\<close>

record stdlib =
  filepath_Join :: "string \<Rightarrow> string \<Rightarrow> string"
  json_Unmarshal :: "string \<Rightarrow> QdiscInfo list \<times> error option"

definition testQdiscGet ::
  "stdlib \<Rightarrow> qdisc_world \<Rightarrow> string \<Rightarrow> QdiscInfo list \<times> error option" where
  "testQdiscGet lib w fixtures =
     (let res = [];
          (b, err) = ioutil_ReadFile w (filepath_Join lib fixtures ''results.json'')
      in if err \<noteq> None then (res, err)
         else json_Unmarshal lib b)"

text \<open>The seven statements of the loop body of \<open>Update\<close>, for one root entry.\<close>

definition qdisc_body :: "qdiscStatCollector \<Rightarrow> QdiscInfo \<Rightarrow> (panic + Metric) list" where
  "qdisc_body c msg =
     [mustNewConstMetric (bytes c) (Float64_of_int (uint (Bytes msg))) [IfaceName msg, Kind msg],
      mustNewConstMetric (packets c) (Float64_of_int (uint (Packets msg))) [IfaceName msg, Kind msg],
      mustNewConstMetric (drops c) (Float64_of_int (uint (Drops msg))) [IfaceName msg, Kind msg],
      mustNewConstMetric (requeues c) (Float64_of_int (uint (Requeues msg))) [IfaceName msg, Kind msg],
      mustNewConstMetric (overlimits c) (Float64_of_int (uint (Overlimits msg))) [IfaceName msg, Kind msg],
      mustNewConstMetric (qlength c) (Float64_of_int (uint (Qlen msg))) [IfaceName msg, Kind msg],
      mustNewConstMetric (backlog c) (Float64_of_int (uint (Backlog msg))) [IfaceName msg, Kind msg]]"

text \<open>The loop \<open>for _, msg := range msgs\<close> of \<open>Update\<close>.\<close>

fun qdisc_range ::
  "qdiscStatCollector \<Rightarrow> QdiscInfo list \<Rightarrow> Metric list \<Rightarrow> Metric list \<times> panic option" where
  "qdisc_range c [] ch = (ch, None)"
| "qdisc_range c (msg # msgs) ch =
     (if Parent msg \<noteq> 0 then qdisc_range c msgs ch
      else (case send_all (qdisc_body c msg) ch of
              (ch', Some p) \<Rightarrow> (ch', Some p)
            | (ch', None) \<Rightarrow> qdisc_range c msgs ch'))"

text \<open>
  \<open>(*qdiscStatCollector).Update\<close>: the metrics sent on the channel during the call,
  and how the call ends.
\<close>

definition qdiscStatCollector_Update ::
  "stdlib \<Rightarrow> qdiscStatCollector \<Rightarrow> qdisc_world \<Rightarrow> Metric list \<times> result" where
  "qdiscStatCollector_Update lib c w =
     (let fixtures = collectorQdisc w;
          (msgs, err) = (if fixtures = [] then qdisc_Get w
                         else testQdiscGet lib w fixtures)
      in if err \<noteq> None then ([], Returned err)
         else (case qdisc_range c msgs [] of
                 (ch, Some p) \<Rightarrow> (ch, Panicked p)
               | (ch, None) \<Rightarrow> (ch, Returned None)))"

section \<open>The disk collector (\<open>src/collector/diskstats_darwin.go\<close>)\<close>

text \<open>
  \<open>iostat.DriveStats\<close> of the package \<open>github.com/lufia/iostat\<close>: the fields the
  collector reads. The counters are \<open>int64\<close>; a \<open>time.Duration\<close> is an \<open>int64\<close>
  count of nanoseconds.
\<close>

record DriveStats =
  Name :: string
  BlockSize :: "64 word"
  BytesRead :: "64 word"
  BytesWritten :: "64 word"
  NumRead :: "64 word"
  NumWrite :: "64 word"
  TotalReadTime :: "64 word"
  TotalWriteTime :: "64 word"
  ReadErrors :: "64 word"
  WriteErrors :: "64 word"
  ReadRetries :: "64 word"
  WriteRetries :: "64 word"

text \<open>
  \<open>typedDescFunc\<close> embeds \<open>typedDesc\<close> and adds the function \<open>value\<close> (here
  \<open>value_func\<close>) that reads the sample value off a drive.
\<close>

record typedDescFunc = typedDesc +
  value_func :: "DriveStats \<Rightarrow> float64"

record diskstatsCollector =
  descs :: "typedDescFunc list"

text \<open>
  \<open>NewDiskstatsCollector\<close>. Its error result is always \<open>nil\<close>, and the logger it
  stores is not read by \<open>Update\<close>. The descriptor \<open>ioTimeSecondsDesc\<close> is built
  and used by no entry of \<open>descs\<close>.
\<close>

definition NewDiskstatsCollector :: "package \<Rightarrow> diskstatsCollector" where
  "NewDiskstatsCollector pkg =
     (let readsCompletedDesc = NewDesc
            (BuildFQName (namespace pkg) (diskSubsystem pkg) ''reads_completed_total'')
            ''The total number of reads completed successfully.''
            (diskLabelNames pkg) (constLabels pkg);
          readBytesDesc = NewDesc
            (BuildFQName (namespace pkg) (diskSubsystem pkg) ''read_bytes_total'')
            ''The total number of bytes read successfully.''
            (diskLabelNames pkg) (constLabels pkg);
          writesCompletedDesc = NewDesc
            (BuildFQName (namespace pkg) (diskSubsystem pkg) ''writes_completed_total'')
            ''The total number of writes completed successfully.''
            (diskLabelNames pkg) (constLabels pkg);
          writtenBytesDesc = NewDesc
            (BuildFQName (namespace pkg) (diskSubsystem pkg) ''written_bytes_total'')
            ''The total number of bytes written successfully.''
            (diskLabelNames pkg) (constLabels pkg);
          ioTimeSecondsDesc = NewDesc
            (BuildFQName (namespace pkg) (diskSubsystem pkg) ''io_time_seconds_total'')
            ''Total seconds spent doing I/Os.''
            (diskLabelNames pkg) (constLabels pkg);
          readTimeSecondsDesc = NewDesc
            (BuildFQName (namespace pkg) (diskSubsystem pkg) ''read_time_seconds_total'')
            ''The total number of seconds spent by all reads.''
            (diskLabelNames pkg) (constLabels pkg);
          writeTimeSecondsDesc = NewDesc
            (BuildFQName (namespace pkg) (diskSubsystem pkg) ''write_time_seconds_total'')
            ''This is the total number of seconds spent by all writes.''
            (diskLabelNames pkg) (constLabels pkg)
      in \<lparr>descs =
           [\<lparr>desc = readsCompletedDesc, valueType = CounterValue,
             value_func = (\<lambda>stat. Float64_of_int (sint (NumRead stat)))\<rparr>,
            \<lparr>desc = NewDesc
                (BuildFQName (namespace pkg) (diskSubsystem pkg) ''read_sectors_total'')
                ''The total number of sectors read successfully.''
                (diskLabelNames pkg) (constLabels pkg),
             valueType = CounterValue,
             value_func = (\<lambda>stat. Float64_div (Float64_of_int (sint (NumRead stat)))
                                              (Float64_of_int (sint (BlockSize stat))))\<rparr>,
            \<lparr>desc = readTimeSecondsDesc, valueType = CounterValue,
             value_func = (\<lambda>stat. Duration_Seconds (sint (TotalReadTime stat)))\<rparr>,
            \<lparr>desc = writesCompletedDesc, valueType = CounterValue,
             value_func = (\<lambda>stat. Float64_of_int (sint (NumWrite stat)))\<rparr>,
            \<lparr>desc = NewDesc
                (BuildFQName (namespace pkg) (diskSubsystem pkg) ''written_sectors_total'')
                ''The total number of sectors written successfully.''
                (diskLabelNames pkg) (constLabels pkg),
             valueType = CounterValue,
             value_func = (\<lambda>stat. Float64_div (Float64_of_int (sint (NumWrite stat)))
                                              (Float64_of_int (sint (BlockSize stat))))\<rparr>,
            \<lparr>desc = writeTimeSecondsDesc, valueType = CounterValue,
             value_func = (\<lambda>stat. Duration_Seconds (sint (TotalWriteTime stat)))\<rparr>,
            \<lparr>desc = readBytesDesc, valueType = CounterValue,
             value_func = (\<lambda>stat. Float64_of_int (sint (BytesRead stat)))\<rparr>,
            \<lparr>desc = writtenBytesDesc, valueType = CounterValue,
             value_func = (\<lambda>stat. Float64_of_int (sint (BytesWritten stat)))\<rparr>,
            \<lparr>desc = NewDesc
                (BuildFQName (namespace pkg) (diskSubsystem pkg) ''read_errors_total'')
                ''The total number of read errors.''
                (diskLabelNames pkg) (constLabels pkg),
             valueType = CounterValue,
             value_func = (\<lambda>stat. Float64_of_int (sint (ReadErrors stat)))\<rparr>,
            \<lparr>desc = NewDesc
                (BuildFQName (namespace pkg) (diskSubsystem pkg) ''write_errors_total'')
                ''The total number of write errors.''
                (diskLabelNames pkg) (constLabels pkg),
             valueType = CounterValue,
             value_func = (\<lambda>stat. Float64_of_int (sint (WriteErrors stat)))\<rparr>,
            \<lparr>desc = NewDesc
                (BuildFQName (namespace pkg) (diskSubsystem pkg) ''read_retries_total'')
                ''The total number of read retries.''
                (diskLabelNames pkg) (constLabels pkg),
             valueType = CounterValue,
             value_func = (\<lambda>stat. Float64_of_int (sint (ReadRetries stat)))\<rparr>,
            \<lparr>desc = NewDesc
                (BuildFQName (namespace pkg) (diskSubsystem pkg) ''write_retries_total'')
                ''The total number of write retries.''
                (diskLabelNames pkg) (constLabels pkg),
             valueType = CounterValue,
             value_func = (\<lambda>stat. Float64_of_int (sint (WriteRetries stat)))\<rparr>]\<rparr>)"

text \<open>The inner loop \<open>for _, desc := range c.descs\<close> of \<open>Update\<close>, for one drive.\<close>

fun descs_range ::
  "typedDescFunc list \<Rightarrow> DriveStats \<Rightarrow> Metric list \<Rightarrow> Metric list \<times> panic option" where
  "descs_range [] stats ch = (ch, None)"
| "descs_range (d # ds) stats ch =
     (let v = value_func d stats
      in case mustNewConstMetric d v [Name stats] of
           Inl p \<Rightarrow> (ch, Some p)
         | Inr m \<Rightarrow> descs_range ds stats (ch @ [m]))"

text \<open>The outer loop \<open>for _, stats := range diskStats\<close>.\<close>

fun diskStats_range ::
  "diskstatsCollector \<Rightarrow> DriveStats list \<Rightarrow> Metric list \<Rightarrow> Metric list \<times> panic option" where
  "diskStats_range c [] ch = (ch, None)"
| "diskStats_range c (stats # rest) ch =
     (case descs_range (descs c) stats ch of
        (ch', Some p) \<Rightarrow> (ch', Some p)
      | (ch', None) \<Rightarrow> diskStats_range c rest ch')"

text \<open>
  \<open>(*diskstatsCollector).Update\<close>. Its one input from outside the program is what
  \<open>iostat.ReadDriveStats()\<close> returns now.
\<close>

definition diskstatsCollector_Update ::
  "diskstatsCollector \<Rightarrow> DriveStats list \<times> error option \<Rightarrow> Metric list \<times> result" where
  "diskstatsCollector_Update c iostat_ReadDriveStats =
     (let (diskStats, err) = iostat_ReadDriveStats
      in case err of
           Some e \<Rightarrow> ([], Returned (Some (Errorf ''couldn't get diskstats: %w'' e)))
         | None \<Rightarrow>
             (case diskStats_range c diskStats [] of
                (ch, Some p) \<Rightarrow> (ch, Panicked p)
              | (ch, None) \<Rightarrow> (ch, Returned None)))"

section \<open>The time collector (second file of \<open>src/collector/diskstats_darwin.go\<close>)\<close>

text \<open>
  The field \<open>desc\<close> of \<open>timeCollector\<close> is \<open>timeCollector_desc\<close> here, the name
  \<open>desc\<close> being the field of \<open>typedDesc\<close>.
\<close>

record timeCollector =
  timeCollector_desc :: Desc

definition NewTimeCollector :: "package \<Rightarrow> timeCollector" where
  "NewTimeCollector pkg =
     \<lparr>timeCollector_desc = NewDesc (namespace pkg @ ''_time_seconds'')
        ''System time in seconds since epoch (1970).''
        [] (constLabels pkg)\<rparr>"

text \<open>
  \<open>(*timeCollector).Update\<close>. Its one input from outside the program is the \<open>int64\<close>
  that \<open>time.Now().UnixNano()\<close> returns during the call. The debug log line has no
  effect on the channel or the result.
\<close>

definition timeCollector_Update :: "timeCollector \<Rightarrow> 64 word \<Rightarrow> Metric list \<times> result" where
  "timeCollector_Update c time_Now_UnixNano =
     (let now = Float64_div (Float64_of_int (sint time_Now_UnixNano))
                            (Float64_of_int 1000000000)
      in case send_all [MustNewConstMetric (timeCollector_desc c) GaugeValue now []] [] of
           (ch, Some p) \<Rightarrow> (ch, Panicked p)
         | (ch, None) \<Rightarrow> (ch, Returned None))"

section \<open>Notions used to state the properties\<close>

text \<open>
  The data source of the queueing-discipline collector: the live call when the
  fixtures flag is empty, the fixture reader otherwise.
\<close>

definition qdisc_fetch :: "stdlib \<Rightarrow> qdisc_world \<Rightarrow> QdiscInfo list \<times> error option" where
  "qdisc_fetch lib w =
     (if collectorQdisc w = [] then qdisc_Get w else testQdiscGet lib w (collectorQdisc w))"

text \<open>The sample of a typed descriptor with a value and label values.\<close>

definition observe :: "'a typedDesc_scheme \<Rightarrow> float64 \<Rightarrow> string list \<Rightarrow> Metric" where
  "observe d v labelValues =
     \<lparr>metric_desc = desc d, metric_valueType = valueType d, metric_value = v,
      metric_labelValues = labelValues\<rparr>"

text \<open>
  The declared counters of one entity: the seven samples of a queueing
  discipline, one for each descriptor of the collector, and the samples of a
  drive, one for each entry of \<open>descs\<close>.
\<close>

definition qdisc_metrics :: "qdiscStatCollector \<Rightarrow> QdiscInfo \<Rightarrow> Metric list" where
  "qdisc_metrics c msg =
     [observe (bytes c) (Float64_of_int (uint (Bytes msg))) [IfaceName msg, Kind msg],
      observe (packets c) (Float64_of_int (uint (Packets msg))) [IfaceName msg, Kind msg],
      observe (drops c) (Float64_of_int (uint (Drops msg))) [IfaceName msg, Kind msg],
      observe (requeues c) (Float64_of_int (uint (Requeues msg))) [IfaceName msg, Kind msg],
      observe (overlimits c) (Float64_of_int (uint (Overlimits msg))) [IfaceName msg, Kind msg],
      observe (qlength c) (Float64_of_int (uint (Qlen msg))) [IfaceName msg, Kind msg],
      observe (backlog c) (Float64_of_int (uint (Backlog msg))) [IfaceName msg, Kind msg]]"

definition drive_metrics :: "diskstatsCollector \<Rightarrow> DriveStats \<Rightarrow> Metric list" where
  "drive_metrics c stats = map (\<lambda>d. observe d (value_func d stats) [Name stats]) (descs c)"

text \<open>The name and the kind of a sample.\<close>

definition series :: "Metric \<Rightarrow> string \<times> ValueType" where
  "series m = (fqName (metric_desc m), metric_valueType m)"

text \<open>
  What \<open>Update\<close> of the queueing-discipline collector does with the pair its data
  source returned: the part of the function after the fetch.
\<close>

definition qdisc_emission ::
  "qdiscStatCollector \<Rightarrow> QdiscInfo list \<times> error option \<Rightarrow> Metric list \<times> result" where
  "qdisc_emission c fetched =
     (case fetched of
        (msgs, Some e) \<Rightarrow> ([], Returned (Some e))
      | (msgs, None) \<Rightarrow>
          (case qdisc_range c msgs [] of
             (ch, Some p) \<Rightarrow> (ch, Panicked p)
           | (ch, None) \<Rightarrow> (ch, Returned None)))"

text \<open>The names and kinds of the seven series of the queueing-discipline collector.\<close>

definition qdisc_series :: "package \<Rightarrow> (string \<times> ValueType) list" where
  "qdisc_series pkg =
     [(BuildFQName (namespace pkg) ''qdisc'' ''bytes_total'', CounterValue),
      (BuildFQName (namespace pkg) ''qdisc'' ''packets_total'', CounterValue),
      (BuildFQName (namespace pkg) ''qdisc'' ''drops_total'', CounterValue),
      (BuildFQName (namespace pkg) ''qdisc'' ''requeues_total'', CounterValue),
      (BuildFQName (namespace pkg) ''qdisc'' ''overlimits_total'', CounterValue),
      (BuildFQName (namespace pkg) ''qdisc'' ''current_queue_length'', GaugeValue),
      (BuildFQName (namespace pkg) ''qdisc'' ''backlog'', GaugeValue)]"

subsection \<open>Concrete inputs\<close>

definition node_package :: package where
  "node_package =
     \<lparr>namespace = ''node'', constLabels = [], diskSubsystem = ''disk'',
      diskLabelNames = [''device'']\<rparr>"

definition eth0_pfifo :: QdiscInfo where
  "eth0_pfifo =
     \<lparr>IfaceName = ''eth0'', Parent = 0, Kind = ''pfifo'', Bytes = 1000, Packets = 10,
      Drops = 0, Requeues = 0, Overlimits = 0, Qlen = 5, Backlog = 200\<rparr>"

definition eth0_child :: QdiscInfo where
  "eth0_child =
     \<lparr>IfaceName = ''eth0'', Parent = 65536, Kind = ''fq_codel'', Bytes = 42, Packets = 42,
      Drops = 1, Requeues = 4, Overlimits = 2, Qlen = 3, Backlog = 7\<rparr>"

text \<open>
  A decoder that knows one byte string, and a join that puts a slash between the
  two path elements.
\<close>

definition toy_stdlib :: stdlib where
  "toy_stdlib =
     \<lparr>filepath_Join = (\<lambda>a b. a @ ''/'' @ b),
      json_Unmarshal = (\<lambda>b. if b = ''[pfifo,fq_codel]'' then ([eth0_pfifo, eth0_child], None)
                             else ([], Some (Error ''invalid character'')))\<rparr>"

definition fixture_world :: qdisc_world where
  "fixture_world =
     \<lparr>collectorQdisc = ''fixtures/qdisc'',
      qdisc_Get = ([], Some (Error ''netlink: operation not permitted'')),
      ioutil_ReadFile = (\<lambda>p. if p = ''fixtures/qdisc/results.json''
                              then (''[pfifo,fq_codel]'', None)
                              else ([], Some (Error ''no such file or directory'')))\<rparr>"

definition other_fixture_world :: qdisc_world where
  "other_fixture_world =
     \<lparr>collectorQdisc = ''fixtures/qdisc'',
      qdisc_Get = ([eth0_child], None),
      ioutil_ReadFile = (\<lambda>p. if p = ''fixtures/qdisc/results.json''
                              then (''[pfifo,fq_codel]'', None)
                              else (''unrelated'', None))\<rparr>"

definition live_world :: qdisc_world where
  "live_world =
     \<lparr>collectorQdisc = [],
      qdisc_Get = ([eth0_pfifo, eth0_child], None),
      ioutil_ReadFile = (\<lambda>p. ([], Some (Error ''no such file or directory'')))\<rparr>"

definition missing_fixture_world :: qdisc_world where
  "missing_fixture_world =
     \<lparr>collectorQdisc = ''fixtures/none'',
      qdisc_Get = ([eth0_pfifo], None),
      ioutil_ReadFile = (\<lambda>p. ([], Some (Error ''no such file or directory'')))\<rparr>"

definition disk0 :: DriveStats where
  "disk0 =
     \<lparr>Name = ''disk0'', BlockSize = 4096, BytesRead = 8192000, BytesWritten = 4096000,
      NumRead = 2000, NumWrite = 1000, TotalReadTime = 1500000000,
      TotalWriteTime = 2500000000, ReadErrors = 0, WriteErrors = 0, ReadRetries = 0,
      WriteRetries = 0\<rparr>"

section \<open>Rounding to binary64\<close>

lemma round_half_even_of_int: "round_half_even (of_int n) = n"
  by (simp add: round_half_even_def)

lemma round_half_even_err: "\<bar>of_int (round_half_even x) - x\<bar> \<le> 1 / 2"
  unfolding round_half_even_def Let_def by (auto; linarith)

lemma floor_log2_bounds:
  assumes "x \<noteq> 0"
  shows "2 powi \<lfloor>log 2 \<bar>x\<bar>\<rfloor> \<le> \<bar>x\<bar>" and "\<bar>x\<bar> < 2 powi (\<lfloor>log 2 \<bar>x\<bar>\<rfloor> + 1)"
proof -
  have pos: "0 < \<bar>x\<bar>" using assms by simp
  have "2 powr (of_int \<lfloor>log 2 \<bar>x\<bar>\<rfloor>) \<le> \<bar>x\<bar> \<and> \<bar>x\<bar> < 2 powr (of_int (\<lfloor>log 2 \<bar>x\<bar>\<rfloor> + 1))"
    using floor_log_eq_powr_iff [OF pos, of 2 "\<lfloor>log 2 \<bar>x\<bar>\<rfloor>"] by simp
  then show "2 powi \<lfloor>log 2 \<bar>x\<bar>\<rfloor> \<le> \<bar>x\<bar>" and "\<bar>x\<bar> < 2 powi (\<lfloor>log 2 \<bar>x\<bar>\<rfloor> + 1)"
    using powr_real_of_int' [of 2 "\<lfloor>log 2 \<bar>x\<bar>\<rfloor>"] powr_real_of_int' [of 2 "\<lfloor>log 2 \<bar>x\<bar>\<rfloor> + 1"]
    by simp_all
qed

lemma round_binary64_err:
  "x \<noteq> 0 \<Longrightarrow> \<bar>round_binary64 x - x\<bar> \<le> 2 powi ulp_exponent x / 2"
proof -
  assume "x \<noteq> 0"
  define e where "e = ulp_exponent x"
  define p :: real where "p = 2 powi e"
  have p: "0 < p" by (simp add: p_def)
  have "round_binary64 x - x = (of_int (round_half_even (x / p)) - x / p) * p"
    using \<open>x \<noteq> 0\<close> p by (simp add: round_binary64_def e_def p_def field_simps)
  then have "\<bar>round_binary64 x - x\<bar> = \<bar>of_int (round_half_even (x / p)) - x / p\<bar> * p"
    using p by (simp add: abs_mult)
  also have "\<dots> \<le> 1 / 2 * p"
    using round_half_even_err [of "x / p"] p by (intro mult_right_mono) simp_all
  finally show ?thesis by (simp add: p_def e_def)
qed

lemma round_binary64_rel:
  assumes "2 powi (- 1022) \<le> \<bar>x\<bar>"
  shows "\<bar>round_binary64 x - x\<bar> \<le> \<bar>x\<bar> / 2 ^ 53"
proof -
  have nz: "x \<noteq> 0" using assms
    by (metis abs_zero not_le zero_less_numeral zero_less_power_int)
  define k where "k = \<lfloor>log 2 \<bar>x\<bar>\<rfloor>"
  have lo: "2 powi k \<le> \<bar>x\<bar>" and hi: "\<bar>x\<bar> < 2 powi (k + 1)"
    using floor_log2_bounds [OF nz] by (simp_all add: k_def)
  have "(2::real) powi (- 1022) < 2 powi (k + 1)" using assms hi by linarith
  then have "- 1022 < k + 1"
    using power_int_increasing [of "k + 1" "- 1022" "2::real"] by (cases "- 1022 < k + 1") simp_all
  moreover have "ulp_exponent x = max (k - 52) (- 1074)"
    by (simp add: ulp_exponent_def k_def)
  ultimately have e: "ulp_exponent x = k - 52" by (simp add: max_def)
  have "\<bar>round_binary64 x - x\<bar> \<le> 2 powi (k - 52) / 2"
    using round_binary64_err [OF nz] by (simp add: e)
  also have "\<dots> = 2 powi k / 2 ^ 53"
    by (simp add: power_int_diff)
  also have "\<dots> \<le> \<bar>x\<bar> / 2 ^ 53"
    using lo by (simp add: divide_right_mono)
  finally show ?thesis .
qed

lemma round_binary64_of_int:
  assumes "\<bar>n\<bar> < 2 ^ 53"
  shows "round_binary64 (of_int n) = of_int n"
proof (cases "n = 0")
  case True
  then show ?thesis by (simp add: round_binary64_def)
next
  case False
  define x :: real where "x = of_int n"
  have nz: "x \<noteq> 0" using False by (simp add: x_def)
  define k where "k = \<lfloor>log 2 \<bar>x\<bar>\<rfloor>"
  have lo: "2 powi k \<le> \<bar>x\<bar>" and hi: "\<bar>x\<bar> < 2 powi (k + 1)"
    using floor_log2_bounds [OF nz] by (simp_all add: k_def)
  have "1 \<le> \<bar>x\<bar>" using False by (simp add: x_def flip: of_int_abs)
  then have "(2::real) powi 0 < 2 powi (k + 1)" using hi by simp
  then have k0: "0 \<le> k"
    using power_int_increasing [of "k + 1" 0 "2::real"] by (cases "0 \<le> k") simp_all
  have "\<bar>x\<bar> < 2 ^ 53" using assms by (simp add: x_def flip: of_int_abs)
  then have "(2::real) powi k < 2 powi 53" using lo by simp
  then have k52: "k \<le> 52"
    using power_int_increasing [of 53 k "2::real"] by (cases "k \<le> 52") simp_all
  have e: "ulp_exponent x = k - 52"
    using k0 by (simp add: ulp_exponent_def k_def [symmetric] max_def)
  define m where "m = nat (52 - k)"
  have p: "(2::real) powi (k - 52) = 1 / 2 ^ m"
    using k52 by (simp add: m_def power_int_def power_one_over)
  have "x / 2 powi (k - 52) = of_int (n * 2 ^ m)"
    by (simp add: p x_def)
  then have "round_half_even (x / 2 powi (k - 52)) = n * 2 ^ m"
    by (simp only: round_half_even_of_int)
  then have "round_binary64 x = of_int (n * 2 ^ m) * (1 / 2 ^ m)"
    using nz by (simp add: round_binary64_def e p)
  then show ?thesis by (simp add: x_def)
qed

lemma binary64_of_int_exact:
  assumes "\<bar>n\<bar> < 2 ^ 53"
  shows "binary64_of_int n = Num (of_int n)"
proof -
  have "\<bar>real_of_int n\<bar> < 2 ^ 53" using assms by (simp flip: of_int_abs)
  then have "\<bar>real_of_int n\<bar> < 2 ^ 1024" by (rule less_trans) simp
  moreover have "real_of_int n = 0 \<Longrightarrow> \<not> real_of_int n < 0" by simp
  ultimately show ?thesis
    by (auto simp add: binary64_of_int_def to_binary64_def round_binary64_of_int [OF assms] Let_def)
qed

lemma to_binary64_Num:
  "round_binary64 x \<noteq> 0 \<Longrightarrow> \<bar>round_binary64 x\<bar> < 2 ^ 1024 \<Longrightarrow>
   to_binary64 x = Num (round_binary64 x)"
  by (simp add: to_binary64_def Let_def)

lemma binary64_div_Num:
  "x \<noteq> 0 \<Longrightarrow> y \<noteq> 0 \<Longrightarrow> binary64_div (Num x) (Num y) = to_binary64 (x / y)"
  by (simp add: binary64_div_def is_inf_def is_zero_def)

lemma seconds_of_nanoseconds:
  assumes lo: "- (2 ^ 63) \<le> n" and hi: "n < 2 ^ 63"
  shows "\<exists>r. binary64_div (binary64_of_int n) (binary64_of_int 1000000000) = Num r
             \<and> \<bar>r - of_int n / 10 ^ 9\<bar> \<le> 3 / 10 ^ 6"
proof (cases "n = 0")
  case True
  have "binary64_of_int 1000000000 = Num 1000000000"
    using binary64_of_int_exact [of 1000000000] by simp
  moreover have "binary64_of_int 0 = Num 0"
    using binary64_of_int_exact [of 0] by simp
  ultimately have "binary64_div (binary64_of_int n) (binary64_of_int 1000000000) = Num 0"
    using True by (simp add: binary64_div_def is_inf_def is_zero_def zero_def)
  then show ?thesis using True by simp
next
  case False
  define x :: real where "x = of_int n"
  define a where "a = round_binary64 x"
  define q where "q = a / 10 ^ 9"
  define b where "b = round_binary64 q"
  have "1 \<le> \<bar>n\<bar>" using False by linarith
  then have x1: "1 \<le> \<bar>x\<bar>" unfolding x_def by (simp flip: of_int_abs)
  have "\<bar>n\<bar> \<le> 2 ^ 63" using lo hi by linarith
  then have "real_of_int \<bar>n\<bar> \<le> real_of_int (2 ^ 63)" by (simp only: of_int_le_iff)
  then have x2: "\<bar>x\<bar> \<le> 2 ^ 63" unfolding x_def by simp
  have small: "(2::real) powi (- 1022) \<le> 1 / 2 ^ 31"
    by (simp add: power_int_minus_divide)
  have "2 powi (- 1022) \<le> \<bar>x\<bar>" using x1 small by simp
  then have ax: "\<bar>a - x\<bar> \<le> \<bar>x\<bar> / 2 ^ 53"
    unfolding a_def by (rule round_binary64_rel)
  have ax': "\<bar>a - x\<bar> \<le> 1024"
  proof -
    have "\<bar>x\<bar> / 2 ^ 53 \<le> 2 ^ 63 / 2 ^ 53" using x2 by (simp add: divide_right_mono)
    then show ?thesis using ax by simp
  qed
  have a1: "1 / 2 \<le> \<bar>a\<bar>"
  proof -
    have "\<bar>x\<bar> / 2 ^ 53 \<le> \<bar>x\<bar> / 2" by (simp add: frac_le)
    then show ?thesis using ax x1 by linarith
  qed
  have a2: "\<bar>a\<bar> \<le> 2 ^ 63 + 1024" using ax' x2 by linarith
  have "\<bar>a\<bar> < 2 ^ 1024"
    by (rule le_less_trans [OF a2]) simp
  moreover have "a \<noteq> 0" using a1 by auto
  ultimately have A: "binary64_of_int n = Num a"
    unfolding binary64_of_int_def a_def x_def by (intro to_binary64_Num) simp_all
  have D: "binary64_of_int 1000000000 = Num 1000000000"
    using binary64_of_int_exact [of 1000000000] by simp
  have q_abs: "\<bar>q\<bar> = \<bar>a\<bar> / 10 ^ 9" by (simp add: q_def)
  have q1: "1 / 2 ^ 31 \<le> \<bar>q\<bar>"
  proof -
    have "(1 / 2) / 10 ^ 9 \<le> \<bar>a\<bar> / 10 ^ 9" using a1 by (intro divide_right_mono) simp_all
    then show ?thesis unfolding q_abs by simp
  qed
  have q2: "\<bar>q\<bar> \<le> 2 ^ 34"
  proof -
    have "\<bar>a\<bar> / 10 ^ 9 \<le> (2 ^ 63 + 1024) / 10 ^ 9"
      using a2 by (intro divide_right_mono) simp_all
    then show ?thesis unfolding q_abs by simp
  qed
  have "2 powi (- 1022) \<le> \<bar>q\<bar>" using q1 small by linarith
  then have bq: "\<bar>b - q\<bar> \<le> \<bar>q\<bar> / 2 ^ 53"
    unfolding b_def by (rule round_binary64_rel)
  have bq': "\<bar>b - q\<bar> \<le> 1 / 2 ^ 19"
  proof -
    have "\<bar>q\<bar> / 2 ^ 53 \<le> 2 ^ 34 / 2 ^ 53" using q2 by (intro divide_right_mono) simp_all
    then show ?thesis using bq by simp
  qed
  have b1: "b \<noteq> 0"
  proof -
    have "\<bar>q\<bar> / 2 ^ 53 \<le> \<bar>q\<bar> / 2" by (simp add: frac_le)
    then have "\<bar>q\<bar> / 2 \<le> \<bar>b\<bar>" using bq by linarith
    then show ?thesis using q1 by auto
  qed
  have "\<bar>b\<bar> \<le> 2 ^ 34 + 1 / 2 ^ 19" using bq' q2 by linarith
  then have b2: "\<bar>b\<bar> < 2 ^ 1024" by (rule le_less_trans) simp
  have "binary64_div (binary64_of_int n) (binary64_of_int 1000000000) = to_binary64 q"
    using \<open>a \<noteq> 0\<close> by (simp add: A D binary64_div_Num q_def)
  also have "\<dots> = Num b"
    unfolding b_def using b1 b2 by (intro to_binary64_Num) (simp_all add: b_def)
  finally have R: "binary64_div (binary64_of_int n) (binary64_of_int 1000000000) = Num b" .
  have "\<bar>q - x / 10 ^ 9\<bar> = \<bar>a - x\<bar> / 10 ^ 9"
    by (simp add: q_def flip: diff_divide_distrib)
  also have "\<dots> \<le> 1024 / 10 ^ 9" using ax' by (intro divide_right_mono) simp_all
  finally have "\<bar>q - x / 10 ^ 9\<bar> \<le> 1024 / 10 ^ 9" .
  then have "\<bar>b - x / 10 ^ 9\<bar> \<le> 1 / 2 ^ 19 + 1024 / 10 ^ 9" using bq' by linarith
  also have "\<dots> \<le> 3 / 10 ^ 6" by simp
  finally show ?thesis using R by (auto simp: x_def)
qed

section \<open>Sending on the channel\<close>

lemma send_all_Inr: "send_all (map Inr ms) ch = (ch @ ms, None)"
  by (induction ms arbitrary: ch) simp_all

lemma length_concat_blocks:
  "(\<And>x. x \<in> set xs \<Longrightarrow> length (f x) = k) \<Longrightarrow> length (concat (map f xs)) = k * length xs"
  by (induction xs) simp_all

lemma nth_concat_blocks:
  "(\<And>x. x \<in> set xs \<Longrightarrow> length (f x) = k) \<Longrightarrow> i < length xs \<Longrightarrow> j < k \<Longrightarrow>
   concat (map f xs) ! (k * i + j) = f (xs ! i) ! j"
proof (induction xs arbitrary: i)
  case Nil
  then show ?case by simp
next
  case (Cons x xs)
  have len: "length (f x) = k" using Cons.prems(1) by simp
  show ?case
  proof (cases i)
    case 0
    then show ?thesis using len Cons.prems(3) by (simp add: nth_append)
  next
    case (Suc i')
    have "concat (map f xs) ! (k * i' + j) = f (xs ! i') ! j"
      using Cons.prems Suc by (intro Cons.IH) simp_all
    moreover have "k * i + j - k = k * i' + j" using Suc by simp
    moreover have "\<not> k * i + j < k" using Suc by simp
    ultimately show ?thesis using len Suc by (simp add: nth_append)
  qed
qed

section \<open>The queueing-discipline collector\<close>

lemma qdisc_body_New:
  "qdisc_body (NewQdiscStatCollector pkg) msg
     = map Inr (qdisc_metrics (NewQdiscStatCollector pkg) msg)"
  by (simp add: qdisc_body_def qdisc_metrics_def NewQdiscStatCollector_def NewDesc_def
      mustNewConstMetric_def MustNewConstMetric_def observe_def)

lemma qdisc_range_New:
  "qdisc_range (NewQdiscStatCollector pkg) msgs ch
     = (ch @ concat (map (qdisc_metrics (NewQdiscStatCollector pkg))
                      (filter (\<lambda>msg. Parent msg = 0) msgs)), None)"
  by (induction msgs arbitrary: ch) (simp_all add: qdisc_body_New send_all_Inr)

lemma qdisc_Update_fetch:
  "qdiscStatCollector_Update lib c w =
     (case qdisc_fetch lib w of
        (msgs, Some e) \<Rightarrow> ([], Returned (Some e))
      | (msgs, None) \<Rightarrow>
          (case qdisc_range c msgs [] of
             (ch, Some p) \<Rightarrow> (ch, Panicked p)
           | (ch, None) \<Rightarrow> (ch, Returned None)))"
  by (simp add: qdiscStatCollector_Update_def qdisc_fetch_def Let_def
      split: prod.splits option.splits)

lemma qdisc_Update_ok:
  "qdisc_fetch lib w = (msgs, None) \<Longrightarrow>
   qdiscStatCollector_Update lib (NewQdiscStatCollector pkg) w
     = (concat (map (qdisc_metrics (NewQdiscStatCollector pkg))
                  (filter (\<lambda>msg. Parent msg = 0) msgs)), Returned None)"
  by (simp add: qdisc_Update_fetch qdisc_range_New)

lemma qdisc_Update_err:
  "qdisc_fetch lib w = (msgs, Some e) \<Longrightarrow>
   qdiscStatCollector_Update lib c w = ([], Returned (Some e))"
  by (simp add: qdisc_Update_fetch)

lemma length_qdisc_metrics: "length (qdisc_metrics c msg) = 7"
  by (simp add: qdisc_metrics_def)

lemma qdisc_fetch_fixture:
  "qdisc_fetch toy_stdlib fixture_world = ([eth0_pfifo, eth0_child], None)"
  by (simp add: qdisc_fetch_def testQdiscGet_def toy_stdlib_def fixture_world_def)

lemma qdisc_fetch_live:
  "qdisc_fetch toy_stdlib live_world = ([eth0_pfifo, eth0_child], None)"
  by (simp add: qdisc_fetch_def live_world_def)

lemma qdisc_fetch_missing:
  "qdisc_fetch toy_stdlib missing_fixture_world
     = ([], Some (Error ''no such file or directory''))"
  by (simp add: qdisc_fetch_def testQdiscGet_def toy_stdlib_def missing_fixture_world_def)

lemma roots_example:
  "filter (\<lambda>msg. Parent msg = 0) [eth0_pfifo, eth0_child] = [eth0_pfifo]"
  by (simp add: eth0_pfifo_def eth0_child_def)

section \<open>The disk collector\<close>

lemma descs_range_ok:
  "\<forall>d \<in> set ds. length (variableLabels (desc d)) = 1 \<Longrightarrow>
   descs_range ds stats ch
     = (ch @ map (\<lambda>d. observe d (value_func d stats) [Name stats]) ds, None)"
  by (induction ds arbitrary: ch)
     (simp_all add: mustNewConstMetric_def MustNewConstMetric_def observe_def)

lemma descs_range_panic:
  "ds \<noteq> [] \<Longrightarrow> length (variableLabels (desc (hd ds))) \<noteq> 1 \<Longrightarrow>
   descs_range ds stats ch = (ch, Some ''inconsistent label cardinality'')"
  by (cases ds) (simp_all add: mustNewConstMetric_def MustNewConstMetric_def)

lemma diskStats_range_ok:
  "\<forall>d \<in> set (descs c). length (variableLabels (desc d)) = 1 \<Longrightarrow>
   diskStats_range c diskStats ch = (ch @ concat (map (drive_metrics c) diskStats), None)"
  by (induction diskStats arbitrary: ch) (simp_all add: descs_range_ok drive_metrics_def)

lemma diskStats_range_panic:
  "descs c \<noteq> [] \<Longrightarrow> length (variableLabels (desc (hd (descs c)))) \<noteq> 1 \<Longrightarrow>
   diskStats \<noteq> [] \<Longrightarrow>
   diskStats_range c diskStats ch = (ch, Some ''inconsistent label cardinality'')"
  by (cases diskStats) (simp_all add: descs_range_panic)

lemma New_descs_labels:
  "\<forall>d \<in> set (descs (NewDiskstatsCollector pkg)). variableLabels (desc d) = diskLabelNames pkg"
  by (simp add: NewDiskstatsCollector_def Let_def NewDesc_def)

lemma New_descs_length: "length (descs (NewDiskstatsCollector pkg)) = 12"
  by (simp add: NewDiskstatsCollector_def Let_def)

lemma New_descs_hd:
  "variableLabels (desc (hd (descs (NewDiskstatsCollector pkg)))) = diskLabelNames pkg"
  by (simp add: NewDiskstatsCollector_def Let_def NewDesc_def)

lemma New_descs_kinds:
  "\<forall>d \<in> set (descs (NewDiskstatsCollector pkg)). valueType d = CounterValue"
  by (simp add: NewDiskstatsCollector_def Let_def)

lemma diskstats_Update_ok:
  "length (diskLabelNames pkg) = 1 \<Longrightarrow>
   diskstatsCollector_Update (NewDiskstatsCollector pkg) (diskStats, None)
     = (concat (map (drive_metrics (NewDiskstatsCollector pkg)) diskStats), Returned None)"
  by (simp add: diskstatsCollector_Update_def diskStats_range_ok New_descs_labels)

lemma diskstats_Update_panic:
  assumes "length (diskLabelNames pkg) \<noteq> 1" and "diskStats \<noteq> []"
  shows "diskstatsCollector_Update (NewDiskstatsCollector pkg) (diskStats, None)
           = ([], Panicked ''inconsistent label cardinality'')"
proof -
  have ne: "descs (NewDiskstatsCollector pkg) \<noteq> []"
    using New_descs_length [of pkg] by auto
  have "diskStats_range (NewDiskstatsCollector pkg) diskStats []
          = ([], Some ''inconsistent label cardinality'')"
    using assms ne by (intro diskStats_range_panic) (simp_all add: New_descs_hd)
  then show ?thesis by (simp add: diskstatsCollector_Update_def)
qed

lemma diskstats_Update_empty:
  "diskstatsCollector_Update c ([], None) = ([], Returned None)"
  by (simp add: diskstatsCollector_Update_def)

lemma diskstats_Update_err:
  "diskstatsCollector_Update c (diskStats, Some e)
     = ([], Returned (Some (Errorf ''couldn't get diskstats: %w'' e)))"
  by (simp add: diskstatsCollector_Update_def)

lemma length_drive_metrics:
  "length (drive_metrics (NewDiskstatsCollector pkg) stats) = 12"
  by (simp add: drive_metrics_def New_descs_length)

text \<open>
  Whatever the package declares and whatever the data source returns, the disk
  collector sends whole drives only: the samples of the first \<open>k\<close> drives.
\<close>

lemma diskstats_Update_whole_drives:
  "\<exists>k \<le> length (fst r).
     fst (diskstatsCollector_Update (NewDiskstatsCollector pkg) r)
       = concat (map (drive_metrics (NewDiskstatsCollector pkg)) (take k (fst r)))"
proof -
  obtain diskStats err where r: "r = (diskStats, err)" by (cases r)
  show ?thesis
  proof (cases err)
    case (Some e)
    then have "fst (diskstatsCollector_Update (NewDiskstatsCollector pkg) r)
                 = concat (map (drive_metrics (NewDiskstatsCollector pkg)) (take 0 (fst r)))"
      by (simp add: r diskstats_Update_err)
    then show ?thesis by blast
  next
    case None
    show ?thesis
    proof (cases "length (diskLabelNames pkg) = 1")
      case True
      then have "fst (diskstatsCollector_Update (NewDiskstatsCollector pkg) r)
                   = concat (map (drive_metrics (NewDiskstatsCollector pkg))
                                 (take (length (fst r)) (fst r)))"
        by (simp add: r None diskstats_Update_ok)
      then show ?thesis by blast
    next
      case False
      have "fst (diskstatsCollector_Update (NewDiskstatsCollector pkg) r) = []"
        using False
        by (cases "diskStats = []")
           (simp_all add: r None diskstats_Update_panic diskstats_Update_empty)
      then have "fst (diskstatsCollector_Update (NewDiskstatsCollector pkg) r)
                   = concat (map (drive_metrics (NewDiskstatsCollector pkg)) (take 0 (fst r)))"
        by simp
      then show ?thesis by blast
    qed
  qed
qed

lemma float64_val_of_int_exact:
  "\<bar>n\<bar> < 2 ^ 53 \<Longrightarrow> float64_val (Float64_of_int n) = Num (of_int n)"
  by (simp add: binary64_of_int_exact)

lemma qdisc_Update_New:
  "qdiscStatCollector_Update lib (NewQdiscStatCollector pkg) w
     = (case qdisc_fetch lib w of
          (msgs, Some e) \<Rightarrow> ([], Returned (Some e))
        | (msgs, None) \<Rightarrow>
            (concat (map (qdisc_metrics (NewQdiscStatCollector pkg))
                       (filter (\<lambda>msg. Parent msg = 0) msgs)), Returned None))"
  by (simp add: qdisc_Update_fetch qdisc_range_New split: prod.splits option.splits)

lemma node_package_labels: "length (diskLabelNames node_package) = 1"
  by (simp add: node_package_def)

lemma fixture_matches_live:
  "collectorQdisc fixture_world \<noteq> [] \<and> collectorQdisc live_world = []
   \<and> testQdiscGet toy_stdlib fixture_world (collectorQdisc fixture_world) = qdisc_Get live_world"
  by (simp add: fixture_world_def live_world_def testQdiscGet_def toy_stdlib_def)

lemma timeCollector_Update_New:
  "timeCollector_Update (NewTimeCollector pkg) t
     = ([\<lparr>metric_desc = timeCollector_desc (NewTimeCollector pkg),
          metric_valueType = GaugeValue,
          metric_value = Float64_div (Float64_of_int (sint t)) (Float64_of_int 1000000000),
          metric_labelValues = []\<rparr>], Returned None)"
  by (simp add: timeCollector_Update_def NewTimeCollector_def NewDesc_def
      MustNewConstMetric_def Let_def)

lemma time_value:
  fixes t :: "64 word"
  shows "\<exists>r. float64_val (Float64_div (Float64_of_int (sint t)) (Float64_of_int 1000000000)) = Num r
             \<and> \<bar>r - of_int (sint t) / 10 ^ 9\<bar> \<le> 3 / 10 ^ 6"
proof -
  have "- (2 ^ 63) \<le> sint t" using sint_ge [of t] by simp
  moreover have "sint t < 2 ^ 63" using sint_lt [of t] by simp
  ultimately show ?thesis
    using seconds_of_nanoseconds [of "sint t"] by simp
qed

lemma one_second_later:
  "sint (1700000001000000000 :: 64 word) = sint (1700000000000000000 :: 64 word) + 10 ^ 9"
  by simp

lemma qdisc_Update_members:
  assumes "m \<in> set (fst (qdiscStatCollector_Update lib (NewQdiscStatCollector pkg) w))"
  shows "\<exists>msg \<in> set (fst (qdisc_fetch lib w)).
           Parent msg = 0 \<and> m \<in> set (qdisc_metrics (NewQdiscStatCollector pkg) msg)"
proof -
  obtain msgs err where f: "qdisc_fetch lib w = (msgs, err)" by (cases "qdisc_fetch lib w")
  show ?thesis
  proof (cases err)
    case None
    then show ?thesis using assms by (auto simp add: qdisc_Update_New f)
  next
    case (Some e)
    then show ?thesis using assms by (simp add: qdisc_Update_New f)
  qed
qed

lemma qdisc_Update_no_panic:
  "snd (qdiscStatCollector_Update lib (NewQdiscStatCollector pkg) w) \<noteq> Panicked p"
  by (simp add: qdisc_Update_New split: prod.splits option.splits)

lemma diskstats_Update_members:
  assumes "m \<in> set (fst (diskstatsCollector_Update (NewDiskstatsCollector pkg) r))"
  shows "\<exists>stats \<in> set (fst r). m \<in> set (drive_metrics (NewDiskstatsCollector pkg) stats)"
proof -
  obtain k where
    "fst (diskstatsCollector_Update (NewDiskstatsCollector pkg) r)
       = concat (map (drive_metrics (NewDiskstatsCollector pkg)) (take k (fst r)))"
    using diskstats_Update_whole_drives [of r pkg] by blast
  then obtain stats where "stats \<in> set (take k (fst r))"
      and "m \<in> set (drive_metrics (NewDiskstatsCollector pkg) stats)"
    using assms by auto
  then show ?thesis using set_take_subset [of k "fst r"] by blast
qed

lemma diskstats_Update_sent:
  assumes "m \<in> set (fst (diskstatsCollector_Update (NewDiskstatsCollector pkg) r))"
  shows "length (diskLabelNames pkg) = 1"
proof (rule ccontr)
  assume n: "length (diskLabelNames pkg) \<noteq> 1"
  obtain diskStats err where r: "r = (diskStats, err)" by (cases r)
  have "fst (diskstatsCollector_Update (NewDiskstatsCollector pkg) r) = []"
    using n
    by (cases err; cases "diskStats = []")
       (simp_all add: r diskstats_Update_err diskstats_Update_panic diskstats_Update_empty)
  then show False using assms by simp
qed

lemma drive_metrics_member:
  assumes "m \<in> set (drive_metrics (NewDiskstatsCollector pkg) stats)"
  shows "variableLabels (metric_desc m) = diskLabelNames pkg
         \<and> metric_labelValues m = [Name stats]
         \<and> metric_valueType m = CounterValue"
proof -
  obtain d where d: "d \<in> set (descs (NewDiskstatsCollector pkg))"
      and m: "m = observe d (value_func d stats) [Name stats]"
    using assms by (auto simp add: drive_metrics_def)
  show ?thesis
    using d New_descs_labels [of pkg] New_descs_kinds [of pkg] by (simp add: m observe_def)
qed

lemma BuildFQName_inject: "BuildFQName a b x = BuildFQName a b y \<longleftrightarrow> x = y"
  by (auto simp add: BuildFQName_def)

lemma fixture_sample:
  "observe (bytes (NewQdiscStatCollector node_package)) (Float64_of_int 1000) [''eth0'', ''pfifo'']
     \<in> set (fst (qdiscStatCollector_Update toy_stdlib (NewQdiscStatCollector node_package)
                  fixture_world))"
  using qdisc_Update_ok [OF qdisc_fetch_fixture, of node_package, unfolded roots_example]
  by (simp add: qdisc_metrics_def eth0_pfifo_def)

lemma disk0_sample:
  "drive_metrics (NewDiskstatsCollector node_package) disk0 ! 1
     \<in> set (fst (diskstatsCollector_Update (NewDiskstatsCollector node_package) ([disk0], None)))"
  using diskstats_Update_ok [OF node_package_labels, of "[disk0]"]
  by (simp add: length_drive_metrics)

section \<open>The properties\<close>

text \<open>
  C1. Whatever list of entries the data source returns, live or fixture, \<open>Update\<close> of
  the queueing-discipline collector sends samples for the entries whose \<open>Parent\<close>
  is 0 and for no other: the channel holds the seven samples of each root entry, in
  the order of the list, and nothing else. With \<open>N\<close> root entries that is \<open>7 * N\<close>
  samples, however many entries with a nonzero \<open>Parent\<close> there are.
\<close>

theorem C1_only_root_entries_reported:
  assumes "qdisc_fetch lib w = (msgs, None)"
  shows "fst (qdiscStatCollector_Update lib (NewQdiscStatCollector pkg) w)
           = concat (map (qdisc_metrics (NewQdiscStatCollector pkg))
                         (filter (\<lambda>msg. Parent msg = 0) msgs))
         \<and> length (fst (qdiscStatCollector_Update lib (NewQdiscStatCollector pkg) w))
           = 7 * length (filter (\<lambda>msg. Parent msg = 0) msgs)"
  using assms by (simp add: qdisc_Update_ok length_concat_blocks length_qdisc_metrics)

theorem C1_only_root_entries_reported_witness:
  "qdisc_fetch toy_stdlib fixture_world = ([eth0_pfifo, eth0_child], None)
   \<and> fst (qdiscStatCollector_Update toy_stdlib (NewQdiscStatCollector node_package) fixture_world)
       = qdisc_metrics (NewQdiscStatCollector node_package) eth0_pfifo
   \<and> length (fst (qdiscStatCollector_Update toy_stdlib (NewQdiscStatCollector node_package)
                     fixture_world)) = 7"
  using C1_only_root_entries_reported [OF qdisc_fetch_fixture, of node_package,
      unfolded roots_example]
  by (simp add: qdisc_fetch_fixture length_qdisc_metrics)

text \<open>
  C2. If the data source yields exactly one entry with \<open>Parent\<close> 0, and that entry is
  the \<open>pfifo\<close> discipline of \<open>eth0\<close> with 1000 bytes, 10 packets, no drops, requeues
  or overlimits, queue length 5 and backlog 200 (next to any number of entries with a
  nonzero \<open>Parent\<close>), then \<open>Update\<close> sends exactly seven samples and returns \<open>nil\<close>:
  the bytes, packets, drops, requeues, overlimits, queue-length and backlog series
  with the values 1000, 10, 0, 0, 0, 5 and 200, each with the label values
  \<open>eth0\<close> and \<open>pfifo\<close> for the label names \<open>device\<close> and \<open>kind\<close>.
\<close>

theorem C2_pfifo_scenario:
  assumes "qdisc_fetch lib w = (msgs, None)"
      and "filter (\<lambda>msg. Parent msg = 0) msgs = [eth0_pfifo]"
  shows "qdiscStatCollector_Update lib (NewQdiscStatCollector pkg) w
           = ([observe (bytes (NewQdiscStatCollector pkg)) (Float64_of_int 1000) [''eth0'', ''pfifo''],
               observe (packets (NewQdiscStatCollector pkg)) (Float64_of_int 10) [''eth0'', ''pfifo''],
               observe (drops (NewQdiscStatCollector pkg)) (Float64_of_int 0) [''eth0'', ''pfifo''],
               observe (requeues (NewQdiscStatCollector pkg)) (Float64_of_int 0) [''eth0'', ''pfifo''],
               observe (overlimits (NewQdiscStatCollector pkg)) (Float64_of_int 0) [''eth0'', ''pfifo''],
               observe (qlength (NewQdiscStatCollector pkg)) (Float64_of_int 5) [''eth0'', ''pfifo''],
               observe (backlog (NewQdiscStatCollector pkg)) (Float64_of_int 200) [''eth0'', ''pfifo'']],
              Returned None)
         \<and> map (\<lambda>m. float64_val (metric_value m))
               (fst (qdiscStatCollector_Update lib (NewQdiscStatCollector pkg) w))
           = [Num 1000, Num 10, Num 0, Num 0, Num 0, Num 5, Num 200]
         \<and> map (\<lambda>m. (variableLabels (metric_desc m), metric_labelValues m))
               (fst (qdiscStatCollector_Update lib (NewQdiscStatCollector pkg) w))
           = replicate 7 ([''device'', ''kind''], [''eth0'', ''pfifo''])"
proof -
  have U: "qdiscStatCollector_Update lib (NewQdiscStatCollector pkg) w
             = (qdisc_metrics (NewQdiscStatCollector pkg) eth0_pfifo, Returned None)"
    using assms by (simp add: qdisc_Update_ok)
  have V: "float64_val (Float64_of_int 1000) = Num 1000"
      "float64_val (Float64_of_int 10) = Num 10"
      "float64_val (Float64_of_int 0) = Num 0"
      "float64_val (Float64_of_int 5) = Num 5"
      "float64_val (Float64_of_int 200) = Num 200"
    using float64_val_of_int_exact [of 1000] float64_val_of_int_exact [of 10]
      float64_val_of_int_exact [of 0] float64_val_of_int_exact [of 5]
      float64_val_of_int_exact [of 200]
    by simp_all
  have M: "qdisc_metrics (NewQdiscStatCollector pkg) eth0_pfifo
            = [observe (bytes (NewQdiscStatCollector pkg)) (Float64_of_int 1000) [''eth0'', ''pfifo''],
               observe (packets (NewQdiscStatCollector pkg)) (Float64_of_int 10) [''eth0'', ''pfifo''],
               observe (drops (NewQdiscStatCollector pkg)) (Float64_of_int 0) [''eth0'', ''pfifo''],
               observe (requeues (NewQdiscStatCollector pkg)) (Float64_of_int 0) [''eth0'', ''pfifo''],
               observe (overlimits (NewQdiscStatCollector pkg)) (Float64_of_int 0) [''eth0'', ''pfifo''],
               observe (qlength (NewQdiscStatCollector pkg)) (Float64_of_int 5) [''eth0'', ''pfifo''],
               observe (backlog (NewQdiscStatCollector pkg)) (Float64_of_int 200) [''eth0'', ''pfifo'']]"
    by (simp add: qdisc_metrics_def eth0_pfifo_def)
  have L: "map (\<lambda>m. (variableLabels (metric_desc m), metric_labelValues m))
               (qdisc_metrics (NewQdiscStatCollector pkg) eth0_pfifo)
            = replicate 7 ([''device'', ''kind''], [''eth0'', ''pfifo''])"
    unfolding M by (simp add: observe_def NewQdiscStatCollector_def NewDesc_def numeral_eq_Suc)
  have W: "map (\<lambda>m. float64_val (metric_value m))
               (qdisc_metrics (NewQdiscStatCollector pkg) eth0_pfifo)
            = [Num 1000, Num 10, Num 0, Num 0, Num 0, Num 5, Num 200]"
    by (simp only: M list.map observe_def Metric.simps V)
  show ?thesis
    unfolding U fst_conv using M L W by simp
qed

theorem C2_pfifo_scenario_witness:
  "qdisc_fetch toy_stdlib fixture_world = ([eth0_pfifo, eth0_child], None)
   \<and> filter (\<lambda>msg. Parent msg = 0) [eth0_pfifo, eth0_child] = [eth0_pfifo]
   \<and> map (\<lambda>m. float64_val (metric_value m))
         (fst (qdiscStatCollector_Update toy_stdlib (NewQdiscStatCollector node_package)
                 fixture_world))
       = [Num 1000, Num 10, Num 0, Num 0, Num 0, Num 5, Num 200]
   \<and> snd (qdiscStatCollector_Update toy_stdlib (NewQdiscStatCollector node_package)
             fixture_world) = Returned None"
proof -
  have "qdiscStatCollector_Update toy_stdlib (NewQdiscStatCollector node_package) fixture_world
          = (qdisc_metrics (NewQdiscStatCollector node_package) eth0_pfifo, Returned None)"
    using qdisc_Update_ok [OF qdisc_fetch_fixture, of node_package, unfolded roots_example]
    by simp
  then have "snd (qdiscStatCollector_Update toy_stdlib (NewQdiscStatCollector node_package)
                    fixture_world) = Returned None"
    by simp
  then show ?thesis
    using C2_pfifo_scenario [OF qdisc_fetch_fixture roots_example, of node_package]
      qdisc_fetch_fixture roots_example
    by blast
qed

text \<open>
  C3. Per-entity atomicity. The samples of an entity are sent together in one call
  of \<open>Update\<close>, all or none. The disk collector sends, for every drive of the
  fetched list, one sample for each of its 12 descriptors (when the package declares
  the one label name that the collector supplies a value for); and whatever the
  package declares and whatever the fetch returns, the channel holds the samples of
  whole drives only, those of the first \<open>k\<close> drives. The queueing-discipline
  collector sends, for every root entry, one sample for each of its 7 descriptors,
  and nothing when the fetch fails.
\<close>

theorem C3_per_entity_atomicity:
  "(\<exists>k \<le> length (fst r).
      fst (diskstatsCollector_Update (NewDiskstatsCollector pkg) r)
        = concat (map (drive_metrics (NewDiskstatsCollector pkg)) (take k (fst r))))
   \<and> (length (diskLabelNames pkg) = 1 \<longrightarrow>
        diskstatsCollector_Update (NewDiskstatsCollector pkg) (diskStats, None)
          = (concat (map (drive_metrics (NewDiskstatsCollector pkg)) diskStats), Returned None))
   \<and> length (drive_metrics (NewDiskstatsCollector pkg) stats) = 12
   \<and> map metric_desc (drive_metrics (NewDiskstatsCollector pkg) stats)
       = map desc (descs (NewDiskstatsCollector pkg))
   \<and> fst (qdiscStatCollector_Update lib (NewQdiscStatCollector pkg) w)
       = (case qdisc_fetch lib w of
            (msgs, Some e) \<Rightarrow> []
          | (msgs, None) \<Rightarrow>
              concat (map (qdisc_metrics (NewQdiscStatCollector pkg))
                        (filter (\<lambda>msg. Parent msg = 0) msgs)))
   \<and> length (qdisc_metrics (NewQdiscStatCollector pkg) msg) = 7
   \<and> map metric_desc (qdisc_metrics (NewQdiscStatCollector pkg) msg)
       = map desc [bytes (NewQdiscStatCollector pkg), packets (NewQdiscStatCollector pkg),
                   drops (NewQdiscStatCollector pkg), requeues (NewQdiscStatCollector pkg),
                   overlimits (NewQdiscStatCollector pkg), qlength (NewQdiscStatCollector pkg),
                   backlog (NewQdiscStatCollector pkg)]"
proof (intro conjI)
  show "\<exists>k \<le> length (fst r).
      fst (diskstatsCollector_Update (NewDiskstatsCollector pkg) r)
        = concat (map (drive_metrics (NewDiskstatsCollector pkg)) (take k (fst r)))"
    by (rule diskstats_Update_whole_drives)
  show "length (diskLabelNames pkg) = 1 \<longrightarrow>
        diskstatsCollector_Update (NewDiskstatsCollector pkg) (diskStats, None)
          = (concat (map (drive_metrics (NewDiskstatsCollector pkg)) diskStats), Returned None)"
    by (simp add: diskstats_Update_ok)
  show "length (drive_metrics (NewDiskstatsCollector pkg) stats) = 12"
    by (rule length_drive_metrics)
  show "map metric_desc (drive_metrics (NewDiskstatsCollector pkg) stats)
       = map desc (descs (NewDiskstatsCollector pkg))"
    by (simp add: drive_metrics_def observe_def)
  show "fst (qdiscStatCollector_Update lib (NewQdiscStatCollector pkg) w)
       = (case qdisc_fetch lib w of
            (msgs, Some e) \<Rightarrow> []
          | (msgs, None) \<Rightarrow>
              concat (map (qdisc_metrics (NewQdiscStatCollector pkg))
                        (filter (\<lambda>msg. Parent msg = 0) msgs)))"
    by (simp add: qdisc_Update_New split: prod.splits option.splits)
  show "length (qdisc_metrics (NewQdiscStatCollector pkg) msg) = 7"
    by (rule length_qdisc_metrics)
  show "map metric_desc (qdisc_metrics (NewQdiscStatCollector pkg) msg)
       = map desc [bytes (NewQdiscStatCollector pkg), packets (NewQdiscStatCollector pkg),
                   drops (NewQdiscStatCollector pkg), requeues (NewQdiscStatCollector pkg),
                   overlimits (NewQdiscStatCollector pkg), qlength (NewQdiscStatCollector pkg),
                   backlog (NewQdiscStatCollector pkg)]"
    by (simp add: qdisc_metrics_def observe_def)
qed

theorem C3_per_entity_atomicity_witness:
  "length (diskLabelNames node_package) = 1
   \<and> diskstatsCollector_Update (NewDiskstatsCollector node_package) ([disk0, disk0], None)
       = (drive_metrics (NewDiskstatsCollector node_package) disk0
            @ drive_metrics (NewDiskstatsCollector node_package) disk0, Returned None)
   \<and> length (drive_metrics (NewDiskstatsCollector node_package) disk0) = 12"
  using C3_per_entity_atomicity [where pkg = node_package and diskStats = "[disk0, disk0]"
      and stats = disk0]
  by (simp add: node_package_labels)

text \<open>
  C4. \<open>Update\<close> returns an error exactly when the fetch from its data source fails,
  and then it has sent no sample; when the fetch succeeds it returns \<open>nil\<close>. For
  the queueing-discipline collector the fetch is the live call when the fixtures
  flag is empty, and otherwise fails exactly when \<open>results.json\<close> cannot be read or
  cannot be decoded. For the disk collector success after a successful fetch needs
  the package to declare the one label name the collector supplies a value for.
\<close>

theorem C4_error_iff_fetch_fails:
  "((\<exists>e. snd (qdiscStatCollector_Update lib (NewQdiscStatCollector pkg) w) = Returned (Some e))
      \<longleftrightarrow> snd (qdisc_fetch lib w) \<noteq> None)
   \<and> (snd (qdisc_fetch lib w) \<noteq> None \<longrightarrow>
        qdiscStatCollector_Update lib (NewQdiscStatCollector pkg) w
          = ([], Returned (snd (qdisc_fetch lib w))))
   \<and> (snd (qdisc_fetch lib w) = None \<longrightarrow>
        snd (qdiscStatCollector_Update lib (NewQdiscStatCollector pkg) w) = Returned None)
   \<and> (collectorQdisc w = [] \<longrightarrow> snd (qdisc_fetch lib w) = snd (qdisc_Get w))
   \<and> (collectorQdisc w \<noteq> [] \<longrightarrow>
        (snd (qdisc_fetch lib w) \<noteq> None \<longleftrightarrow>
           snd (ioutil_ReadFile w (filepath_Join lib (collectorQdisc w) ''results.json'')) \<noteq> None
           \<or> snd (json_Unmarshal lib
                    (fst (ioutil_ReadFile w
                            (filepath_Join lib (collectorQdisc w) ''results.json'')))) \<noteq> None))
   \<and> ((\<exists>e. snd (diskstatsCollector_Update (NewDiskstatsCollector pkg) r) = Returned (Some e))
        \<longleftrightarrow> snd r \<noteq> None)
   \<and> (snd r \<noteq> None \<longrightarrow> fst (diskstatsCollector_Update (NewDiskstatsCollector pkg) r) = [])
   \<and> (snd r = None \<and> length (diskLabelNames pkg) = 1 \<longrightarrow>
        snd (diskstatsCollector_Update (NewDiskstatsCollector pkg) r) = Returned None)"
proof -
  obtain msgs err where f: "qdisc_fetch lib w = (msgs, err)" by (cases "qdisc_fetch lib w")
  obtain diskStats derr where r: "r = (diskStats, derr)" by (cases r)
  have q: "qdiscStatCollector_Update lib (NewQdiscStatCollector pkg) w
            = (case err of
                 Some e \<Rightarrow> ([], Returned (Some e))
               | None \<Rightarrow> (concat (map (qdisc_metrics (NewQdiscStatCollector pkg))
                                   (filter (\<lambda>msg. Parent msg = 0) msgs)), Returned None))"
    by (simp add: qdisc_Update_New f)
  have src: "collectorQdisc w \<noteq> [] \<Longrightarrow>
        (snd (qdisc_fetch lib w) \<noteq> None \<longleftrightarrow>
           snd (ioutil_ReadFile w (filepath_Join lib (collectorQdisc w) ''results.json'')) \<noteq> None
           \<or> snd (json_Unmarshal lib
                    (fst (ioutil_ReadFile w
                            (filepath_Join lib (collectorQdisc w) ''results.json'')))) \<noteq> None)"
    by (auto simp add: qdisc_fetch_def testQdiscGet_def Let_def split: prod.splits)
  have d1: "(\<exists>e. snd (diskstatsCollector_Update (NewDiskstatsCollector pkg) r) = Returned (Some e))
        \<longleftrightarrow> snd r \<noteq> None"
    by (auto simp add: r diskstatsCollector_Update_def split: option.splits prod.splits)
  have d2: "snd r \<noteq> None \<longrightarrow> fst (diskstatsCollector_Update (NewDiskstatsCollector pkg) r) = []"
    by (auto simp add: r diskstats_Update_err)
  have d3: "snd r = None \<and> length (diskLabelNames pkg) = 1 \<longrightarrow>
        snd (diskstatsCollector_Update (NewDiskstatsCollector pkg) r) = Returned None"
    by (auto simp add: r diskstats_Update_ok)
  have q1: "(\<exists>e. snd (qdiscStatCollector_Update lib (NewQdiscStatCollector pkg) w)
                   = Returned (Some e)) \<longleftrightarrow> snd (qdisc_fetch lib w) \<noteq> None"
    by (cases err) (simp_all add: q f)
  have q2: "snd (qdisc_fetch lib w) \<noteq> None \<longrightarrow>
        qdiscStatCollector_Update lib (NewQdiscStatCollector pkg) w
          = ([], Returned (snd (qdisc_fetch lib w)))"
    by (cases err) (simp_all add: q f)
  have q3: "snd (qdisc_fetch lib w) = None \<longrightarrow>
        snd (qdiscStatCollector_Update lib (NewQdiscStatCollector pkg) w) = Returned None"
    by (cases err) (simp_all add: q f)
  have q4: "collectorQdisc w = [] \<longrightarrow> snd (qdisc_fetch lib w) = snd (qdisc_Get w)"
    by (simp add: qdisc_fetch_def)
  show ?thesis using q1 q2 q3 q4 src d1 d2 d3 by blast
qed

theorem C4_error_iff_fetch_fails_witness:
  "snd (qdisc_fetch toy_stdlib missing_fixture_world) \<noteq> None
   \<and> qdiscStatCollector_Update toy_stdlib (NewQdiscStatCollector node_package)
         missing_fixture_world
       = ([], Returned (Some (Error ''no such file or directory'')))
   \<and> snd (qdisc_fetch toy_stdlib fixture_world) = None
   \<and> snd (qdiscStatCollector_Update toy_stdlib (NewQdiscStatCollector node_package)
             fixture_world) = Returned None
   \<and> fst (diskstatsCollector_Update (NewDiskstatsCollector node_package)
             ([], Some (Error ''not supported''))) = []
   \<and> length (diskLabelNames node_package) = 1
   \<and> snd (diskstatsCollector_Update (NewDiskstatsCollector node_package) ([disk0], None))
       = Returned None"
  using C4_error_iff_fetch_fails [where lib = toy_stdlib and pkg = node_package
      and w = missing_fixture_world and r = "([], Some (Error ''not supported''))"]
    C4_error_iff_fetch_fails [where lib = toy_stdlib and pkg = node_package
      and w = fixture_world and r = "([disk0], None)"]
  by (simp add: qdisc_fetch_missing qdisc_fetch_fixture node_package_labels)

text \<open>
  C5. Fixture and live equivalence. \<open>Update\<close> of the queueing-discipline collector
  is one emission logic applied to what the fetch returned, and the fixtures flag
  decides only which fetch is called. So a run on fixtures whose reader returns what
  the live source returns in another run sends the same samples and ends the same
  way as that live run.
\<close>

theorem C5_fixture_live_equivalence:
  "qdiscStatCollector_Update lib c w
     = qdisc_emission c (if collectorQdisc w = [] then qdisc_Get w
                         else testQdiscGet lib w (collectorQdisc w))
   \<and> (collectorQdisc w_fixture \<noteq> [] \<and> collectorQdisc w_live = []
        \<and> testQdiscGet lib w_fixture (collectorQdisc w_fixture) = qdisc_Get w_live \<longrightarrow>
        qdiscStatCollector_Update lib c w_fixture = qdiscStatCollector_Update lib' c w_live)"
proof -
  have e: "qdiscStatCollector_Update lib0 c w0 = qdisc_emission c (qdisc_fetch lib0 w0)"
    for lib0 w0
    by (simp add: qdisc_Update_fetch qdisc_emission_def)
  show ?thesis
    by (auto simp add: e qdisc_fetch_def)
qed

theorem C5_fixture_live_equivalence_witness:
  "collectorQdisc fixture_world \<noteq> [] \<and> collectorQdisc live_world = []
   \<and> testQdiscGet toy_stdlib fixture_world (collectorQdisc fixture_world) = qdisc_Get live_world
   \<and> qdiscStatCollector_Update toy_stdlib (NewQdiscStatCollector node_package) fixture_world
       = qdiscStatCollector_Update toy_stdlib (NewQdiscStatCollector node_package) live_world"
  using C5_fixture_live_equivalence [where lib = toy_stdlib and lib' = toy_stdlib
      and w_fixture = fixture_world and w_live = live_world and c = "NewQdiscStatCollector node_package"]
    fixture_matches_live
  by blast

text \<open>
  C6. Determinism on fixtures. Two calls of \<open>Update\<close> with the same non-empty
  fixtures flag, for which \<open>results.json\<close> of the fixture directory reads the same,
  send the same samples in the same order and end the same way, whatever else
  differs between the two calls (the live state of the queueing disciplines, any
  other file).
\<close>

theorem C6_fixture_determinism:
  assumes "collectorQdisc w1 \<noteq> []"
      and "collectorQdisc w2 = collectorQdisc w1"
      and "ioutil_ReadFile w2 (filepath_Join lib (collectorQdisc w1) ''results.json'')
             = ioutil_ReadFile w1 (filepath_Join lib (collectorQdisc w1) ''results.json'')"
  shows "qdiscStatCollector_Update lib c w2 = qdiscStatCollector_Update lib c w1"
proof -
  have "qdisc_fetch lib w2 = qdisc_fetch lib w1"
    using assms by (simp add: qdisc_fetch_def testQdiscGet_def)
  then show ?thesis by (simp add: qdisc_Update_fetch)
qed

theorem C6_fixture_determinism_witness:
  "collectorQdisc fixture_world \<noteq> []
   \<and> collectorQdisc other_fixture_world = collectorQdisc fixture_world
   \<and> qdisc_Get other_fixture_world \<noteq> qdisc_Get fixture_world
   \<and> qdiscStatCollector_Update toy_stdlib (NewQdiscStatCollector node_package) other_fixture_world
       = qdiscStatCollector_Update toy_stdlib (NewQdiscStatCollector node_package) fixture_world"
proof -
  have a: "collectorQdisc fixture_world \<noteq> []" by (simp add: fixture_world_def)
  have b: "collectorQdisc other_fixture_world = collectorQdisc fixture_world"
    by (simp add: fixture_world_def other_fixture_world_def)
  have c: "ioutil_ReadFile other_fixture_world
             (filepath_Join toy_stdlib (collectorQdisc fixture_world) ''results.json'')
           = ioutil_ReadFile fixture_world
             (filepath_Join toy_stdlib (collectorQdisc fixture_world) ''results.json'')"
    by (simp add: fixture_world_def other_fixture_world_def toy_stdlib_def)
  have d: "qdisc_Get other_fixture_world \<noteq> qdisc_Get fixture_world"
    by (simp add: fixture_world_def other_fixture_world_def)
  show ?thesis
    using C6_fixture_determinism [OF a b c, of "NewQdiscStatCollector node_package"] a b d
    by blast
qed

text \<open>
  C7. Every call of \<open>Update\<close> of the time collector sends exactly one sample, a
  gauge without labels, and returns \<open>nil\<close>. Its value is computed in the call from
  the clock reading of that call, \<open>float64(UnixNano) / 1e9\<close>: the collector keeps
  no value from an earlier call. As a binary64 number the value is within
  \<open>3 / 10 ^ 6\<close> of the reading in seconds, so the values of two calls whose
  readings are one second apart differ by 1 up to \<open>1 / 10 ^ 5\<close>.
\<close>

theorem C7_time_read_at_call:
  "timeCollector_Update (NewTimeCollector pkg) t
     = ([\<lparr>metric_desc = timeCollector_desc (NewTimeCollector pkg),
          metric_valueType = GaugeValue,
          metric_value = Float64_div (Float64_of_int (sint t)) (Float64_of_int 1000000000),
          metric_labelValues = []\<rparr>], Returned None)
   \<and> (\<exists>r. map (\<lambda>m. float64_val (metric_value m))
               (fst (timeCollector_Update (NewTimeCollector pkg) t)) = [Num r]
           \<and> \<bar>r - of_int (sint t) / 10 ^ 9\<bar> \<le> 3 / 10 ^ 6)
   \<and> (sint t' = sint t + 10 ^ 9 \<longrightarrow>
        (\<exists>r r'. map (\<lambda>m. float64_val (metric_value m))
                   (fst (timeCollector_Update (NewTimeCollector pkg) t)) = [Num r]
               \<and> map (\<lambda>m. float64_val (metric_value m))
                   (fst (timeCollector_Update (NewTimeCollector pkg) t')) = [Num r']
               \<and> \<bar>r' - r - 1\<bar> \<le> 1 / 10 ^ 5))"
proof (intro conjI impI)
  show "timeCollector_Update (NewTimeCollector pkg) t
     = ([\<lparr>metric_desc = timeCollector_desc (NewTimeCollector pkg),
          metric_valueType = GaugeValue,
          metric_value = Float64_div (Float64_of_int (sint t)) (Float64_of_int 1000000000),
          metric_labelValues = []\<rparr>], Returned None)"
    by (rule timeCollector_Update_New)
  obtain r where r: "float64_val (Float64_div (Float64_of_int (sint t))
                       (Float64_of_int 1000000000)) = Num r"
      and rb: "\<bar>r - of_int (sint t) / 10 ^ 9\<bar> \<le> 3 / 10 ^ 6"
    using time_value [of t] by blast
  have R: "map (\<lambda>m. float64_val (metric_value m))
               (fst (timeCollector_Update (NewTimeCollector pkg) t)) = [Num r]"
    by (simp only: timeCollector_Update_New fst_conv list.map Metric.simps r)
  show "\<exists>r. map (\<lambda>m. float64_val (metric_value m))
               (fst (timeCollector_Update (NewTimeCollector pkg) t)) = [Num r]
           \<and> \<bar>r - of_int (sint t) / 10 ^ 9\<bar> \<le> 3 / 10 ^ 6"
    by (intro exI [of _ r] conjI R rb)
  assume step: "sint t' = sint t + 10 ^ 9"
  obtain r' where r': "float64_val (Float64_div (Float64_of_int (sint t'))
                       (Float64_of_int 1000000000)) = Num r'"
      and rb': "\<bar>r' - of_int (sint t') / 10 ^ 9\<bar> \<le> 3 / 10 ^ 6"
    using time_value [of t'] by blast
  have R': "map (\<lambda>m. float64_val (metric_value m))
               (fst (timeCollector_Update (NewTimeCollector pkg) t')) = [Num r']"
    by (simp only: timeCollector_Update_New fst_conv list.map Metric.simps r')
  have "real_of_int (sint t') / 10 ^ 9 = real_of_int (sint t) / 10 ^ 9 + 1"
    by (simp add: step add_divide_distrib)
  then have "\<bar>r' - r - 1\<bar> \<le> 6 / 10 ^ 6" using rb rb' by linarith
  also have "\<dots> \<le> (1::real) / 10 ^ 5" by simp
  finally have D: "\<bar>r' - r - 1\<bar> \<le> 1 / 10 ^ 5" .
  show "\<exists>r r'. map (\<lambda>m. float64_val (metric_value m))
                   (fst (timeCollector_Update (NewTimeCollector pkg) t)) = [Num r]
               \<and> map (\<lambda>m. float64_val (metric_value m))
                   (fst (timeCollector_Update (NewTimeCollector pkg) t')) = [Num r']
               \<and> \<bar>r' - r - 1\<bar> \<le> 1 / 10 ^ 5"
    by (intro exI [of _ r] exI [of _ r'] conjI R R' D)
qed

theorem C7_time_read_at_call_witness:
  "sint (1700000001000000000 :: 64 word) = sint (1700000000000000000 :: 64 word) + 10 ^ 9
   \<and> (\<exists>r r'. map (\<lambda>m. float64_val (metric_value m))
                (fst (timeCollector_Update (NewTimeCollector node_package)
                        1700000000000000000)) = [Num r]
            \<and> map (\<lambda>m. float64_val (metric_value m))
                (fst (timeCollector_Update (NewTimeCollector node_package)
                        1700000001000000000)) = [Num r']
            \<and> \<bar>r' - r - 1\<bar> \<le> 1 / 10 ^ 5)"
  using C7_time_read_at_call [where pkg = node_package and t = 1700000000000000000
      and t' = 1700000001000000000] one_second_later
  by (intro conjI) (erule conjE impE | assumption)+

text \<open>
  C8. Label consistency. Every sample sent in a call supplies as many label values
  as its descriptor declares label names, in the declared order. A sample of the
  queueing-discipline collector has the label names \<open>device\<close>, \<open>kind\<close> and the
  values interface name, kind of a root entry of the fetched list, and no call of
  that collector panics on a label count. A sample of the disk collector has the
  label names of the package and the one value drive name of a drive of the fetched
  list; when the package declares one name, no call panics on a label count.
\<close>

theorem C8_label_consistency:
  "(\<forall>m \<in> set (fst (qdiscStatCollector_Update lib (NewQdiscStatCollector pkg) w)).
      variableLabels (metric_desc m) = [''device'', ''kind'']
      \<and> length (metric_labelValues m) = length (variableLabels (metric_desc m))
      \<and> (\<exists>msg \<in> set (fst (qdisc_fetch lib w)).
            Parent msg = 0 \<and> metric_labelValues m = [IfaceName msg, Kind msg]))
   \<and> (\<forall>p. snd (qdiscStatCollector_Update lib (NewQdiscStatCollector pkg) w) \<noteq> Panicked p)
   \<and> (\<forall>m \<in> set (fst (diskstatsCollector_Update (NewDiskstatsCollector pkg) r)).
        variableLabels (metric_desc m) = diskLabelNames pkg
        \<and> length (metric_labelValues m) = length (variableLabels (metric_desc m))
        \<and> (\<exists>stats \<in> set (fst r). metric_labelValues m = [Name stats]))
   \<and> (length (diskLabelNames pkg) = 1 \<longrightarrow>
        (\<forall>p. snd (diskstatsCollector_Update (NewDiskstatsCollector pkg) r) \<noteq> Panicked p))"
proof (intro conjI ballI allI impI)
  fix m
  assume "m \<in> set (fst (qdiscStatCollector_Update lib (NewQdiscStatCollector pkg) w))"
  then obtain msg where msg: "msg \<in> set (fst (qdisc_fetch lib w))" "Parent msg = 0"
      and m: "m \<in> set (qdisc_metrics (NewQdiscStatCollector pkg) msg)"
    using qdisc_Update_members by blast
  have l: "variableLabels (metric_desc m) = [''device'', ''kind'']
           \<and> metric_labelValues m = [IfaceName msg, Kind msg]"
    using m by (auto simp add: qdisc_metrics_def observe_def NewQdiscStatCollector_def NewDesc_def)
  show "variableLabels (metric_desc m) = [''device'', ''kind'']" using l by simp
  show "length (metric_labelValues m) = length (variableLabels (metric_desc m))"
    using l by simp
  show "\<exists>msg \<in> set (fst (qdisc_fetch lib w)).
          Parent msg = 0 \<and> metric_labelValues m = [IfaceName msg, Kind msg]"
    using msg l by blast
next
  fix p
  show "snd (qdiscStatCollector_Update lib (NewQdiscStatCollector pkg) w) \<noteq> Panicked p"
    by (rule qdisc_Update_no_panic)
next
  fix m
  assume a: "m \<in> set (fst (diskstatsCollector_Update (NewDiskstatsCollector pkg) r))"
  then obtain stats where stats: "stats \<in> set (fst r)"
      and m: "m \<in> set (drive_metrics (NewDiskstatsCollector pkg) stats)"
    using diskstats_Update_members by blast
  have one: "length (diskLabelNames pkg) = 1" using a by (rule diskstats_Update_sent)
  show "variableLabels (metric_desc m) = diskLabelNames pkg"
    using drive_metrics_member [OF m] by simp
  show "length (metric_labelValues m) = length (variableLabels (metric_desc m))"
    using drive_metrics_member [OF m] one by simp
  show "\<exists>stats \<in> set (fst r). metric_labelValues m = [Name stats]"
    using drive_metrics_member [OF m] stats by blast
next
  fix p
  assume one: "length (diskLabelNames pkg) = 1"
  obtain diskStats err where r: "r = (diskStats, err)" by (cases r)
  show "snd (diskstatsCollector_Update (NewDiskstatsCollector pkg) r) \<noteq> Panicked p"
    using one by (cases err) (simp_all add: r diskstats_Update_ok diskstats_Update_err)
qed

theorem C8_label_consistency_witness:
  "observe (bytes (NewQdiscStatCollector node_package)) (Float64_of_int 1000) [''eth0'', ''pfifo'']
     \<in> set (fst (qdiscStatCollector_Update toy_stdlib (NewQdiscStatCollector node_package)
                  fixture_world))
   \<and> variableLabels (desc (bytes (NewQdiscStatCollector node_package))) = [''device'', ''kind'']
   \<and> drive_metrics (NewDiskstatsCollector node_package) disk0 ! 1
       \<in> set (fst (diskstatsCollector_Update (NewDiskstatsCollector node_package)
                    ([disk0], None)))
   \<and> length (metric_labelValues (drive_metrics (NewDiskstatsCollector node_package) disk0 ! 1))
       = length (variableLabels
                   (metric_desc (drive_metrics (NewDiskstatsCollector node_package) disk0 ! 1)))
   \<and> length (diskLabelNames node_package) = 1
   \<and> snd (diskstatsCollector_Update (NewDiskstatsCollector node_package) ([disk0], None))
       \<noteq> Panicked ''inconsistent label cardinality''"
  using C8_label_consistency [where lib = toy_stdlib and pkg = node_package
      and w = fixture_world and r = "([disk0], None)"]
    fixture_sample disk0_sample node_package_labels
  by (auto simp add: observe_def)

text \<open>
  C9. For the drive at every position \<open>i\<close> of the fetched list the disk collector
  sends the sample \<open>read_sectors_total\<close> (the second of the drive's twelve) with the
  value \<open>float64(NumRead) / float64(BlockSize)\<close> and the sample
  \<open>written_sectors_total\<close> (the fifth) with the value
  \<open>float64(NumWrite) / float64(BlockSize)\<close>: the operation counts divided by the
  block size, not the byte counts.
\<close>

theorem C9_sectors_from_operation_counts:
  assumes "length (diskLabelNames pkg) = 1" and "i < length diskStats"
  shows "fst (diskstatsCollector_Update (NewDiskstatsCollector pkg) (diskStats, None)) ! (12 * i + 1)
           = \<lparr>metric_desc = NewDesc
                (BuildFQName (namespace pkg) (diskSubsystem pkg) ''read_sectors_total'')
                ''The total number of sectors read successfully.''
                (diskLabelNames pkg) (constLabels pkg),
              metric_valueType = CounterValue,
              metric_value = Float64_div (Float64_of_int (sint (NumRead (diskStats ! i))))
                                         (Float64_of_int (sint (BlockSize (diskStats ! i)))),
              metric_labelValues = [Name (diskStats ! i)]\<rparr>
         \<and> fst (diskstatsCollector_Update (NewDiskstatsCollector pkg) (diskStats, None)) ! (12 * i + 4)
           = \<lparr>metric_desc = NewDesc
                (BuildFQName (namespace pkg) (diskSubsystem pkg) ''written_sectors_total'')
                ''The total number of sectors written successfully.''
                (diskLabelNames pkg) (constLabels pkg),
              metric_valueType = CounterValue,
              metric_value = Float64_div (Float64_of_int (sint (NumWrite (diskStats ! i))))
                                         (Float64_of_int (sint (BlockSize (diskStats ! i)))),
              metric_labelValues = [Name (diskStats ! i)]\<rparr>"
proof -
  have out: "fst (diskstatsCollector_Update (NewDiskstatsCollector pkg) (diskStats, None))
               = concat (map (drive_metrics (NewDiskstatsCollector pkg)) diskStats)"
    using assms(1) by (simp add: diskstats_Update_ok)
  have nth: "concat (map (drive_metrics (NewDiskstatsCollector pkg)) diskStats) ! (12 * i + j)
               = drive_metrics (NewDiskstatsCollector pkg) (diskStats ! i) ! j" if "j < 12" for j
    using assms(2) that by (intro nth_concat_blocks) (simp_all add: length_drive_metrics)
  have r: "drive_metrics (NewDiskstatsCollector pkg) stat ! 1
             = \<lparr>metric_desc = NewDesc
                (BuildFQName (namespace pkg) (diskSubsystem pkg) ''read_sectors_total'')
                ''The total number of sectors read successfully.''
                (diskLabelNames pkg) (constLabels pkg),
              metric_valueType = CounterValue,
              metric_value = Float64_div (Float64_of_int (sint (NumRead stat)))
                                         (Float64_of_int (sint (BlockSize stat))),
              metric_labelValues = [Name stat]\<rparr>" for stat
    by (simp add: drive_metrics_def NewDiskstatsCollector_def Let_def observe_def)
  have w: "drive_metrics (NewDiskstatsCollector pkg) stat ! 4
             = \<lparr>metric_desc = NewDesc
                (BuildFQName (namespace pkg) (diskSubsystem pkg) ''written_sectors_total'')
                ''The total number of sectors written successfully.''
                (diskLabelNames pkg) (constLabels pkg),
              metric_valueType = CounterValue,
              metric_value = Float64_div (Float64_of_int (sint (NumWrite stat)))
                                         (Float64_of_int (sint (BlockSize stat))),
              metric_labelValues = [Name stat]\<rparr>" for stat
    by (simp add: drive_metrics_def NewDiskstatsCollector_def Let_def observe_def)
  have j1: "(1::nat) < 12" and j4: "(4::nat) < 12" by simp_all
  show ?thesis
    by (simp only: out nth [OF j1] nth [OF j4] r w)
qed

theorem C9_sectors_from_operation_counts_witness:
  "length (diskLabelNames node_package) = 1
   \<and> 0 < length [disk0]
   \<and> metric_value
        (fst (diskstatsCollector_Update (NewDiskstatsCollector node_package) ([disk0], None)) ! 1)
       = Float64_div (Float64_of_int 2000) (Float64_of_int 4096)
   \<and> metric_value
        (fst (diskstatsCollector_Update (NewDiskstatsCollector node_package) ([disk0], None)) ! 4)
       = Float64_div (Float64_of_int 1000) (Float64_of_int 4096)"
  using C9_sectors_from_operation_counts [OF node_package_labels, of 0 "[disk0]"]
  by (simp add: node_package_labels disk0_def)

text \<open>
  C10. Kinds. The seven samples of a queueing discipline are, in order,
  \<open>bytes_total\<close>, \<open>packets_total\<close>, \<open>drops_total\<close>, \<open>requeues_total\<close> and
  \<open>overlimits_total\<close> as counters and \<open>current_queue_length\<close> and \<open>backlog\<close>
  as gauges; the seven names differ, and every sample the collector sends is one of
  these seven series. All twelve descriptors of the disk collector are counters, and
  so is every sample it sends.
\<close>

theorem C10_metric_kinds:
  "map series (qdisc_metrics (NewQdiscStatCollector pkg) msg) = qdisc_series pkg
   \<and> distinct (map fst (qdisc_series pkg))
   \<and> (\<forall>m \<in> set (fst (qdiscStatCollector_Update lib (NewQdiscStatCollector pkg) w)).
        series m \<in> set (qdisc_series pkg))
   \<and> map valueType (descs (NewDiskstatsCollector pkg)) = replicate 12 CounterValue
   \<and> (\<forall>m \<in> set (fst (diskstatsCollector_Update (NewDiskstatsCollector pkg) r)).
        metric_valueType m = CounterValue)"
proof (intro conjI ballI)
  show s: "map series (qdisc_metrics (NewQdiscStatCollector pkg) msg) = qdisc_series pkg" for msg
    by (simp add: qdisc_metrics_def qdisc_series_def series_def observe_def
        NewQdiscStatCollector_def NewDesc_def)
  show "distinct (map fst (qdisc_series pkg))"
    by (simp add: qdisc_series_def BuildFQName_inject)
  show "map valueType (descs (NewDiskstatsCollector pkg)) = replicate 12 CounterValue"
    by (simp add: NewDiskstatsCollector_def Let_def numeral_eq_Suc)
  show "series m \<in> set (qdisc_series pkg)"
    if mem: "m \<in> set (fst (qdiscStatCollector_Update lib (NewQdiscStatCollector pkg) w))" for m
  proof -
    obtain msg where "m \<in> set (qdisc_metrics (NewQdiscStatCollector pkg) msg)"
      using mem qdisc_Update_members by blast
    then have "series m \<in> set (map series (qdisc_metrics (NewQdiscStatCollector pkg) msg))"
      by simp
    then show ?thesis by (simp only: s)
  qed
  show "metric_valueType m = CounterValue"
    if mem: "m \<in> set (fst (diskstatsCollector_Update (NewDiskstatsCollector pkg) r))" for m
  proof -
    obtain stats where "m \<in> set (drive_metrics (NewDiskstatsCollector pkg) stats)"
      using mem diskstats_Update_members by blast
    then show ?thesis using drive_metrics_member by blast
  qed
qed

theorem C10_metric_kinds_witness:
  "observe (bytes (NewQdiscStatCollector node_package)) (Float64_of_int 1000) [''eth0'', ''pfifo'']
     \<in> set (fst (qdiscStatCollector_Update toy_stdlib (NewQdiscStatCollector node_package)
                  fixture_world))
   \<and> series (observe (bytes (NewQdiscStatCollector node_package)) (Float64_of_int 1000)
               [''eth0'', ''pfifo''])
       \<in> set (qdisc_series node_package)
   \<and> drive_metrics (NewDiskstatsCollector node_package) disk0 ! 1
       \<in> set (fst (diskstatsCollector_Update (NewDiskstatsCollector node_package)
                    ([disk0], None)))
   \<and> metric_valueType (drive_metrics (NewDiskstatsCollector node_package) disk0 ! 1)
       = CounterValue"
  using C10_metric_kinds [where lib = toy_stdlib and pkg = node_package
      and w = fixture_world and r = "([disk0], None)"]
    fixture_sample disk0_sample
  by blast

end
